theory Spec2Isabelle
  imports Complex_Main
begin

section \<open>Printer status as the control components read it\<close>

text \<open>
  The components under \<^verbatim>\<open>components/control\<close> receive
  \<^verbatim>\<open>status: PrinterStatus | null | undefined\<close>. A missing status is \<open>None\<close>.
  JavaScript numbers are modelled as \<open>int\<close> where the code handles identifiers,
  distances and percentages, and as \<open>real\<close> for temperatures; where the code computes
  with identifiers, the rounding of doubles is written out.
\<close>

record Temperatures =
  bed :: "real option"
  bed_target :: "real option"
  nozzle :: "real option"
  nozzle_target :: "real option"
  nozzle_2 :: "real option"
  nozzle_2_target :: "real option"
  chamber :: "real option"

text \<open>The raw MQTT shape that \<^verbatim>\<open>parseAMSData\<close> casts \<^verbatim>\<open>raw_data.ams\<close> to.
  Every field is optional, and an array element may be \<^verbatim>\<open>null\<close>.\<close>

record RawTray =
  raw_tray_id :: "int option"
  tray_color :: "string option"
  tray_type :: "string option"
  raw_remain :: "int option"

record RawUnit =
  raw_unit_id :: "int option"
  tray :: "RawTray option list option"

record RawData =
  ams :: "RawUnit option list option"

record PrinterStatus =
  connected :: bool
  state :: string
  temperatures :: "Temperatures option"
  raw_data :: "RawData option"

text \<open>\<^verbatim>\<open>status?.connected ?? false\<close>, the first line of every control component.\<close>

definition isConnected :: "PrinterStatus option \<Rightarrow> bool" where
  "isConnected status = (case status of None \<Rightarrow> False | Some s \<Rightarrow> connected s)"

text \<open>\<^verbatim>\<open>status?.state === x\<close>\<close>

definition state_is :: "PrinterStatus option \<Rightarrow> string \<Rightarrow> bool" where
  "state_is status x = (case status of None \<Rightarrow> False | Some s \<Rightarrow> state s = x)"

section \<open>AMSPanel: parsing and tray numbering\<close>

record AMSTray =
  tray_id :: int
  color :: string
  type_name :: string
  remain :: int
  active :: bool

record AMSUnit =
  unit_id :: int
  trays :: "AMSTray list"

text \<open>
  The callbacks of the two \<^verbatim>\<open>map\<close> calls. Reading a property of a \<^verbatim>\<open>null\<close>
  element throws a TypeError inside the \<^verbatim>\<open>try\<close> block; the thrown error is the
  value \<open>None\<close>.
\<close>

definition parse_tray :: "RawTray option \<Rightarrow> AMSTray option" where
  "parse_tray t = (case t of
      None \<Rightarrow> None
    | Some r \<Rightarrow> Some \<lparr> tray_id = (case raw_tray_id r of None \<Rightarrow> 0 | Some v \<Rightarrow> v),
                       color = (case tray_color r of None \<Rightarrow> ''FFFFFF'' | Some v \<Rightarrow> v),
                       type_name = (case tray_type r of None \<Rightarrow> ''Unknown'' | Some v \<Rightarrow> v),
                       remain = (case raw_remain r of None \<Rightarrow> 0 | Some v \<Rightarrow> v),
                       active = False \<rparr>)"

text \<open>\<^verbatim>\<open>xs.map(f)\<close> where \<open>f\<close> may throw: the first throw aborts the whole map.\<close>

fun map_throwing :: "('a \<Rightarrow> 'b option) \<Rightarrow> 'a list \<Rightarrow> 'b list option" where
  "map_throwing f [] = Some []"
| "map_throwing f (x # xs) =
     (case f x of
        None \<Rightarrow> None
      | Some y \<Rightarrow> (case map_throwing f xs of None \<Rightarrow> None | Some ys \<Rightarrow> Some (y # ys)))"

definition parse_unit :: "RawUnit option \<Rightarrow> AMSUnit option" where
  "parse_unit u = (case u of
      None \<Rightarrow> None
    | Some r \<Rightarrow>
        (case map_throwing parse_tray (case tray r of None \<Rightarrow> [] | Some ts \<Rightarrow> ts) of
           None \<Rightarrow> None
         | Some ts \<Rightarrow> Some \<lparr> unit_id = (case raw_unit_id r of None \<Rightarrow> 0 | Some v \<Rightarrow> v),
                             trays = ts \<rparr>))"

text \<open>\<^verbatim>\<open>parseAMSData\<close>: the optional chain, the early return and the try/catch.\<close>

definition parseAMSData :: "PrinterStatus option \<Rightarrow> AMSUnit list" where
  "parseAMSData status =
     (case status of
        None \<Rightarrow> []
      | Some s \<Rightarrow>
          (case raw_data s of
             None \<Rightarrow> []
           | Some rd \<Rightarrow>
               (case ams rd of
                  None \<Rightarrow> []
                | Some us \<Rightarrow>
                    (case map_throwing parse_unit us of None \<Rightarrow> [] | Some r \<Rightarrow> r))))"

text \<open>
  JavaScript numbers are IEEE doubles. An identifier is an integer-valued double, and the
  arithmetic on identifiers is modelled on \<open>int option\<close>: \<open>Some n\<close> is the finite number
  \<open>n\<close>, \<open>None\<close> is a number that is not finite (an infinity or NaN). The result of
  \<^verbatim>\<open>+\<close> and \<^verbatim>\<open>*\<close> is the exact result rounded to the nearest double, ties to the
  even mantissa: every integer up to \<open>2 ^ 53\<close> in absolute value is a double; above it a
  double keeps the 53 leading bits, and a rounded magnitude of \<open>2 ^ 1024\<close> or more is
  an infinity.
\<close>

function double_exp :: "int \<Rightarrow> nat" where
  "double_exp a = (if a < 2 ^ 53 then 0 else Suc (double_exp (a div 2)))"
  by pat_completeness auto
termination
  by (relation "measure nat") auto

declare double_exp.simps [simp del]

definition to_double :: "int \<Rightarrow> int option" where
  "to_double n =
     (if \<bar>n\<bar> \<le> 2 ^ 53 then Some n
      else (let e = double_exp \<bar>n\<bar>;
                q = \<bar>n\<bar> div 2 ^ e;
                r = \<bar>n\<bar> mod 2 ^ e;
                h = 2 ^ (e - 1);
                q' = (if h < r \<or> (r = h \<and> odd q) then q + 1 else q)
            in if 2 ^ 1024 \<le> q' * 2 ^ e then None else Some (sgn n * (q' * 2 ^ e))))"

definition js_add :: "int option \<Rightarrow> int option \<Rightarrow> int option" where
  "js_add a b =
     (case a of
        None \<Rightarrow> None
      | Some x \<Rightarrow> (case b of None \<Rightarrow> None | Some y \<Rightarrow> to_double (x + y)))"

definition js_mul :: "int option \<Rightarrow> int option \<Rightarrow> int option" where
  "js_mul a b =
     (case a of
        None \<Rightarrow> None
      | Some x \<Rightarrow> (case b of None \<Rightarrow> None | Some y \<Rightarrow> to_double (x * y)))"

text \<open>JavaScript's \<^verbatim>\<open>%\<close> on finite integers is exact: the result has the sign of the
  dividend. \<^verbatim>\<open>Math.floor(x / 4)\<close> is exact as well (a division by a power of two),
  and is \<open>x div 4\<close>.\<close>

definition js_rem :: "int \<Rightarrow> int \<Rightarrow> int" where
  "js_rem a b = sgn a * (\<bar>a\<bar> mod \<bar>b\<bar>)"

text \<open>\<^verbatim>\<open>const globalTrayId = unit.id * 4 + tray.id\<close>\<close>

definition globalTrayId :: "int \<Rightarrow> int \<Rightarrow> int option" where
  "globalTrayId u t = js_add (js_mul (Some u) (Some 4)) (Some t)"

text \<open>The numbers of the line \<^verbatim>\<open>Selected: Slot ... (AMS ...)\<close>:
  \<^verbatim>\<open>(selectedTray % 4) + 1\<close> and \<^verbatim>\<open>Math.floor(selectedTray / 4) + 1\<close>.\<close>

definition selected_slot :: "int option \<Rightarrow> int option" where
  "selected_slot selectedTray = js_add (map_option (\<lambda>g. js_rem g 4) selectedTray) (Some 1)"

definition selected_ams :: "int option \<Rightarrow> int option" where
  "selected_ams selectedTray = js_add (map_option (\<lambda>g. g div 4) selectedTray) (Some 1)"

text \<open>The numbers printed on a tray button and in a unit header:
  \<^verbatim>\<open>tray.id + 1\<close> and \<^verbatim>\<open>unit.id + 1\<close>.\<close>

definition shown_number :: "int \<Rightarrow> int option" where
  "shown_number i = js_add (Some i) (Some 1)"

section \<open>TemperaturePanel: the +/- adjustment\<close>

type_synonym token = string

datatype heater = Bed | Nozzle

text \<open>The variables of \<^verbatim>\<open>bedMutation.mutate\<close> and \<^verbatim>\<open>nozzleMutation.mutate\<close>.\<close>

datatype temperature_mutate =
    BedMutate real "token option"
  | NozzleMutate real int "token option"

text \<open>\<^verbatim>\<open>(status?.temperatures ?? {}) as Temperatures\<close>\<close>

definition temps_of :: "PrinterStatus option \<Rightarrow> Temperatures" where
  "temps_of status =
     (case (case status of None \<Rightarrow> None | Some s \<Rightarrow> temperatures s) of
        None \<Rightarrow> \<lparr> bed = None, bed_target = None, nozzle = None, nozzle_target = None,
                  nozzle_2 = None, nozzle_2_target = None, chamber = None \<rparr>
      | Some t \<Rightarrow> t)"

definition or_zero :: "real option \<Rightarrow> real" where
  "or_zero v = (case v of None \<Rightarrow> 0 | Some x \<Rightarrow> x)"

definition adjustTemp :: "Temperatures \<Rightarrow> heater \<Rightarrow> real \<Rightarrow> int \<Rightarrow> temperature_mutate" where
  "adjustTemp temps ty delta nz =
     (let currentTarget =
            (if ty = Bed then or_zero (bed_target temps)
             else if nz = 0 then or_zero (nozzle_target temps)
             else or_zero (nozzle_2_target temps));
          newTarget = max 0 (min (if ty = Bed then 120 else 300) (currentTarget + delta))
      in if ty = Bed then BedMutate newTarget None else NozzleMutate newTarget nz None)"

section \<open>The disabled attribute of every command-triggering control\<close>

text \<open>
  Local component state that the \<^verbatim>\<open>disabled=\<close> expressions read: the
  \<^verbatim>\<open>isPending\<close> flags of the mutations, the confirmation prompt, the selected tray.
  Each mutation of the movement and temperature panels also counts its \<^verbatim>\<open>mutate\<close>
  calls, since \<^verbatim>\<open>isPending\<close> follows the latest call only.
\<close>

datatype movement_mutate =
    HomeMutate string "token option"
  | MoveMutate string int "token option"
  | DisableMotorsMutate "token option"

record MovementConfirm =
  action :: string
  token :: token
  warning :: string
  onConfirm :: movement_mutate

record MovementState =
  confirmModal :: "MovementConfirm option"
  moveDistance :: int
  home_isPending :: bool
  move_isPending :: bool
  disable_isPending :: bool
  home_calls :: nat
  move_calls :: nat
  disable_calls :: nat

record TemperatureConfirm =
  tc_type :: heater
  tc_target :: real
  tc_nozzle :: "int option"
  tc_token :: token
  tc_warning :: string

record TemperatureState =
  tp_confirmModal :: "TemperatureConfirm option"
  bed_isPending :: bool
  nozzle_isPending :: bool
  bed_calls :: nat
  nozzle_calls :: nat

record AMSState =
  selectedTray :: "int option"
  load_isPending :: bool
  unload_isPending :: bool

record ControlPageState =
  movement :: MovementState
  temperature :: TemperatureState
  amsPanel :: AMSState
  light_isPending :: bool
  speed_isPending :: bool

text \<open>FanControls: \<^verbatim>\<open>disabled={!isConnected}\<close> on the three sliders.\<close>

definition FanSlider_disabled :: "PrinterStatus option \<Rightarrow> bool" where
  "FanSlider_disabled status = (\<not> isConnected status)"

text \<open>LightToggle: \<^verbatim>\<open>disabled={!isConnected || lightMutation.isPending}\<close>\<close>

definition LightToggle_disabled :: "PrinterStatus option \<Rightarrow> bool \<Rightarrow> bool" where
  "LightToggle_disabled status pending = (\<not> isConnected status \<or> pending)"

text \<open>MovementControls: \<^verbatim>\<open>isPrinting\<close> only selects the yellow banner; the jog
  buttons, Home and Disable Motors all carry \<^verbatim>\<open>disabled={!isConnected || isLoading}\<close>.\<close>

definition Movement_isPrinting :: "PrinterStatus option \<Rightarrow> bool" where
  "Movement_isPrinting status = (state_is status ''RUNNING'' \<or> state_is status ''PAUSE'')"

definition Movement_isLoading :: "MovementState \<Rightarrow> bool" where
  "Movement_isLoading s = (home_isPending s \<or> move_isPending s \<or> disable_isPending s)"

definition Movement_disabled :: "PrinterStatus option \<Rightarrow> MovementState \<Rightarrow> bool" where
  "Movement_disabled status s = (\<not> isConnected status \<or> Movement_isLoading s)"

text \<open>TemperaturePanel: presets \<^verbatim>\<open>disabled={!isConnected}\<close>, the +/- buttons
  \<^verbatim>\<open>disabled={!isConnected || bedMutation.isPending}\<close> and the same with
  \<^verbatim>\<open>nozzleMutation\<close>.\<close>

definition Preset_disabled :: "PrinterStatus option \<Rightarrow> bool" where
  "Preset_disabled status = (\<not> isConnected status)"

definition BedAdjust_disabled :: "PrinterStatus option \<Rightarrow> TemperatureState \<Rightarrow> bool" where
  "BedAdjust_disabled status s = (\<not> isConnected status \<or> bed_isPending s)"

definition NozzleAdjust_disabled :: "PrinterStatus option \<Rightarrow> TemperatureState \<Rightarrow> bool" where
  "NozzleAdjust_disabled status s = (\<not> isConnected status \<or> nozzle_isPending s)"

text \<open>AMSPanel: \<^verbatim>\<open>isPrinting = status?.state === 'RUNNING'\<close>; Load carries
  \<^verbatim>\<open>disabled={!isConnected || isPrinting || selectedTray === null || isLoading}\<close>, Unload
  the same without the tray test. With no parsed unit the panel returns early and renders
  neither button.\<close>

definition AMS_isPrinting :: "PrinterStatus option \<Rightarrow> bool" where
  "AMS_isPrinting status = state_is status ''RUNNING''"

definition AMS_isLoading :: "AMSState \<Rightarrow> bool" where
  "AMS_isLoading s = (load_isPending s \<or> unload_isPending s)"

definition Load_disabled :: "PrinterStatus option \<Rightarrow> AMSState \<Rightarrow> bool" where
  "Load_disabled status s =
     (\<not> isConnected status \<or> AMS_isPrinting status \<or> selectedTray s = None \<or> AMS_isLoading s)"

definition Unload_disabled :: "PrinterStatus option \<Rightarrow> AMSState \<Rightarrow> bool" where
  "Unload_disabled status s =
     (\<not> isConnected status \<or> AMS_isPrinting status \<or> AMS_isLoading s)"

definition AMS_buttons_rendered :: "PrinterStatus option \<Rightarrow> bool" where
  "AMS_buttons_rendered status = (length (parseAMSData status) \<noteq> 0)"

text \<open>SpeedControl: \<^verbatim>\<open>disabled={!isConnected || !isPrinting || speedMutation.isPending}\<close>
  with \<^verbatim>\<open>isPrinting = status?.state === 'RUNNING'\<close>.\<close>

definition Speed_isPrinting :: "PrinterStatus option \<Rightarrow> bool" where
  "Speed_isPrinting status = state_is status ''RUNNING''"

definition Speed_disabled :: "PrinterStatus option \<Rightarrow> bool \<Rightarrow> bool" where
  "Speed_disabled status pending = (\<not> isConnected status \<or> \<not> Speed_isPrinting status \<or> pending)"

text \<open>Every element of the components under src whose handler calls a mutation.\<close>

datatype control =
    PartFanSlider | AuxFanSlider | ChamberFanSlider
  | LightButton
  | MoveButton | HomeButton | DisableMotorsButton
  | PresetButton | BedAdjustButton | NozzleAdjustButton
  | LoadButton | UnloadButton
  | SpeedButton

fun control_disabled :: "PrinterStatus option \<Rightarrow> ControlPageState \<Rightarrow> control \<Rightarrow> bool" where
  "control_disabled status page PartFanSlider = FanSlider_disabled status"
| "control_disabled status page AuxFanSlider = FanSlider_disabled status"
| "control_disabled status page ChamberFanSlider = FanSlider_disabled status"
| "control_disabled status page LightButton = LightToggle_disabled status (light_isPending page)"
| "control_disabled status page MoveButton = Movement_disabled status (movement page)"
| "control_disabled status page HomeButton = Movement_disabled status (movement page)"
| "control_disabled status page DisableMotorsButton = Movement_disabled status (movement page)"
| "control_disabled status page PresetButton = Preset_disabled status"
| "control_disabled status page BedAdjustButton = BedAdjust_disabled status (temperature page)"
| "control_disabled status page NozzleAdjustButton = NozzleAdjust_disabled status (temperature page)"
| "control_disabled status page LoadButton = Load_disabled status (amsPanel page)"
| "control_disabled status page UnloadButton = Unload_disabled status (amsPanel page)"
| "control_disabled status page SpeedButton = Speed_disabled status (speed_isPending page)"

fun control_rendered :: "PrinterStatus option \<Rightarrow> control \<Rightarrow> bool" where
  "control_rendered status LoadButton = AMS_buttons_rendered status"
| "control_rendered status UnloadButton = AMS_buttons_rendered status"
| "control_rendered status c = True"

text \<open>A control can start its mutation when it is on the page and not disabled.\<close>

definition control_usable :: "PrinterStatus option \<Rightarrow> ControlPageState \<Rightarrow> control \<Rightarrow> bool" where
  "control_usable status page c = (control_rendered status c \<and> \<not> control_disabled status page c)"

text \<open>No mutation in flight anywhere on the page.\<close>

definition no_pending :: "ControlPageState \<Rightarrow> bool" where
  "no_pending page =
     (\<not> Movement_isLoading (movement page)
      \<and> \<not> bed_isPending (temperature page) \<and> \<not> nozzle_isPending (temperature page)
      \<and> \<not> AMS_isLoading (amsPanel page)
      \<and> \<not> light_isPending page \<and> \<not> speed_isPending page)"

section \<open>The permission table of the specification\<close>

text \<open>
  The lookup table of section 4.1 of the specification, written from its words, to be
  compared with the \<^verbatim>\<open>disabled=\<close> expressions above.
\<close>

datatype permission = Enabled | Warn | Disabled

datatype category =
    PauseCat | ResumeCat | StopCat | TemperatureCat | SpeedModeCat | FansCat
  | MovementHomeCat | AmsLoadUnloadCat | DisableMotorsCat

datatype op_state = IDLE | RUNNING | PAUSE | FINISH

fun state_name :: "op_state \<Rightarrow> string" where
  "state_name IDLE = ''IDLE''"
| "state_name RUNNING = ''RUNNING''"
| "state_name PAUSE = ''PAUSE''"
| "state_name FINISH = ''FINISH''"

fun spec_permission_table :: "category \<Rightarrow> op_state \<Rightarrow> permission" where
  "spec_permission_table PauseCat st = (if st = RUNNING then Enabled else Disabled)"
| "spec_permission_table ResumeCat st = (if st = PAUSE then Enabled else Disabled)"
| "spec_permission_table StopCat st = (if st = RUNNING \<or> st = PAUSE then Enabled else Disabled)"
| "spec_permission_table TemperatureCat st = (if st = RUNNING then Warn else Enabled)"
| "spec_permission_table SpeedModeCat st = (if st = RUNNING then Enabled else Disabled)"
| "spec_permission_table FansCat st = (if st = RUNNING then Warn else Enabled)"
| "spec_permission_table MovementHomeCat st =
     (if st = RUNNING then Disabled else if st = PAUSE then Warn else Enabled)"
| "spec_permission_table AmsLoadUnloadCat st =
     (if st = RUNNING \<or> st = PAUSE then Disabled else Enabled)"
| "spec_permission_table DisableMotorsCat st =
     (if st = RUNNING \<or> st = PAUSE then Warn else Enabled)"

text \<open>The controls that belong to a category. Pause, resume and stop are rendered by
  PrintControls, which is not among the sources, so they have no control here.\<close>

fun controls_of :: "category \<Rightarrow> control list" where
  "controls_of TemperatureCat = [PresetButton, BedAdjustButton, NozzleAdjustButton]"
| "controls_of SpeedModeCat = [SpeedButton]"
| "controls_of FansCat = [PartFanSlider, AuxFanSlider, ChamberFanSlider]"
| "controls_of MovementHomeCat = [MoveButton, HomeButton]"
| "controls_of AmsLoadUnloadCat = [LoadButton, UnloadButton]"
| "controls_of DisableMotorsCat = [DisableMotorsButton]"
| "controls_of c = []"

definition implemented_categories :: "category list" where
  "implemented_categories =
     [TemperatureCat, SpeedModeCat, FansCat, MovementHomeCat, AmsLoadUnloadCat, DisableMotorsCat]"

text \<open>The decision of the UI agrees with the table entry: the control can be used
  exactly when the entry is not \<open>Disabled\<close>.\<close>

definition agrees_with_table ::
  "PrinterStatus option \<Rightarrow> ControlPageState \<Rightarrow> category \<Rightarrow> op_state \<Rightarrow> bool" where
  "agrees_with_table status page cat st =
     list_all (\<lambda>c. control_usable status page c = (spec_permission_table cat st \<noteq> Disabled))
       (controls_of cat)"

section \<open>MovementControls: handlers and the confirmation prompt\<close>

text \<open>
  Modelled from the spec: the result type of the command calls and its discriminator
  \<^verbatim>\<open>isConfirmationRequired\<close> are declared in \<^verbatim>\<open>api/client\<close>, which is not among the
  sources. A response is either the challenge shape
  \<^verbatim>\<open>{ requires_confirmation: true, token, warning }\<close> or a normal result; the presence
  of the flag is the discriminator.
\<close>

datatype api_result = ConfirmationRequired token string | Completed

fun isConfirmationRequired :: "api_result \<Rightarrow> bool" where
  "isConfirmationRequired (ConfirmationRequired t w) = True"
| "isConfirmationRequired Completed = False"

text \<open>\<^verbatim>\<open>mutation.mutate(variables)\<close>: the call is issued, it becomes the mutation's
  latest call and \<^verbatim>\<open>isPending\<close> is set. When the \<open>n\<close>-th call of a mutation settles,
  \<^verbatim>\<open>isPending\<close> is cleared only if that call is the latest one; the
  \<^verbatim>\<open>onSuccess\<close> of the mutation's options runs for every call that succeeds.\<close>

fun Movement_begin :: "movement_mutate \<Rightarrow> MovementState \<Rightarrow> MovementState" where
  "Movement_begin (HomeMutate axes tok) s =
     s\<lparr> home_isPending := True, home_calls := Suc (home_calls s) \<rparr>"
| "Movement_begin (MoveMutate axis d tok) s =
     s\<lparr> move_isPending := True, move_calls := Suc (move_calls s) \<rparr>"
| "Movement_begin (DisableMotorsMutate tok) s =
     s\<lparr> disable_isPending := True, disable_calls := Suc (disable_calls s) \<rparr>"

fun Movement_settle :: "nat \<Rightarrow> movement_mutate \<Rightarrow> MovementState \<Rightarrow> MovementState" where
  "Movement_settle n (HomeMutate axes tok) s =
     (if n = home_calls s then s\<lparr> home_isPending := False \<rparr> else s)"
| "Movement_settle n (MoveMutate axis d tok) s =
     (if n = move_calls s then s\<lparr> move_isPending := False \<rparr> else s)"
| "Movement_settle n (DisableMotorsMutate tok) s =
     (if n = disable_calls s then s\<lparr> disable_isPending := False \<rparr> else s)"

definition Movement_mutate ::
  "MovementState \<Rightarrow> movement_mutate \<Rightarrow> MovementState \<times> movement_mutate list" where
  "Movement_mutate s c = (Movement_begin c s, [c])"

definition handleHome :: "MovementState \<Rightarrow> MovementState \<times> movement_mutate list" where
  "handleHome s = Movement_mutate s (HomeMutate ''XYZ'' None)"

definition handleMove ::
  "string \<Rightarrow> int \<Rightarrow> MovementState \<Rightarrow> MovementState \<times> movement_mutate list" where
  "handleMove axis distance s = Movement_mutate s (MoveMutate axis distance None)"

definition handleDisableMotors :: "MovementState \<Rightarrow> MovementState \<times> movement_mutate list" where
  "handleDisableMotors s = Movement_mutate s (DisableMotorsMutate None)"

text \<open>\<^verbatim>\<open>if (confirmModal) { confirmModal.onConfirm(); setConfirmModal(null); }\<close>\<close>

definition Movement_handleConfirm :: "MovementState \<Rightarrow> MovementState \<times> movement_mutate list" where
  "Movement_handleConfirm s =
     (case confirmModal s of
        None \<Rightarrow> (s, [])
      | Some m \<Rightarrow>
          (case Movement_mutate s (onConfirm m) of
             (s1, calls) \<Rightarrow> (s1\<lparr> confirmModal := None \<rparr>, calls)))"

text \<open>\<^verbatim>\<open>onCancel={() => setConfirmModal(null)}\<close>\<close>

definition Movement_onCancel :: "MovementState \<Rightarrow> MovementState" where
  "Movement_onCancel s = s\<lparr> confirmModal := None \<rparr>"

text \<open>The three \<^verbatim>\<open>onSuccess\<close> callbacks. The test
  \<^verbatim>\<open>if (isConfirmationRequired(result))\<close> is the case distinction on the result; a
  normal result leaves the state as it is. Only \<^verbatim>\<open>moveMutation\<close> reads its variables.\<close>

definition home_onSuccess :: "api_result \<Rightarrow> MovementState \<Rightarrow> MovementState" where
  "home_onSuccess result s =
     (case result of
        ConfirmationRequired t w \<Rightarrow>
          s\<lparr> confirmModal := Some \<lparr> action = ''home'', token = t, warning = w,
                                    onConfirm = HomeMutate ''XYZ'' (Some t) \<rparr> \<rparr>
      | Completed \<Rightarrow> s)"

definition move_onSuccess :: "api_result \<Rightarrow> string \<Rightarrow> int \<Rightarrow> MovementState \<Rightarrow> MovementState" where
  "move_onSuccess result axis distance s =
     (case result of
        ConfirmationRequired t w \<Rightarrow>
          s\<lparr> confirmModal := Some \<lparr> action = ''move'', token = t, warning = w,
                                    onConfirm = MoveMutate axis distance (Some t) \<rparr> \<rparr>
      | Completed \<Rightarrow> s)"

definition disable_onSuccess :: "api_result \<Rightarrow> MovementState \<Rightarrow> MovementState" where
  "disable_onSuccess result s =
     (case result of
        ConfirmationRequired t w \<Rightarrow>
          s\<lparr> confirmModal := Some \<lparr> action = ''disable'', token = t, warning = w,
                                    onConfirm = DisableMotorsMutate (Some t) \<rparr> \<rparr>
      | Completed \<Rightarrow> s)"

fun Movement_onSuccess :: "movement_mutate \<Rightarrow> api_result \<Rightarrow> MovementState \<Rightarrow> MovementState" where
  "Movement_onSuccess (HomeMutate axes tok) result s = home_onSuccess result s"
| "Movement_onSuccess (MoveMutate axis d tok) result s = move_onSuccess result axis d s"
| "Movement_onSuccess (DisableMotorsMutate tok) result s = disable_onSuccess result s"

text \<open>
  What can happen to the component: a click on one of its buttons (a click on a disabled
  button does nothing), a click in the confirmation prompt, or the \<open>n\<close>-th call of a
  mutation that settles, with its result or with an error (\<open>None\<close>).
\<close>

datatype movement_event =
    ClickDistance int
  | ClickMove string bool
  | ClickHome
  | ClickDisableMotors
  | ClickContinue
  | ClickCancel
  | Settled nat movement_mutate "api_result option"

fun Movement_step ::
  "PrinterStatus option \<Rightarrow> MovementState \<Rightarrow> movement_event
     \<Rightarrow> MovementState \<times> movement_mutate list" where
  "Movement_step status s (ClickDistance d) =
     (if d = 1 \<or> d = 10 \<or> d = 50 then (s\<lparr> moveDistance := d \<rparr>, []) else (s, []))"
| "Movement_step status s (ClickMove axis positive) =
     (if Movement_disabled status s then (s, [])
      else handleMove axis (if positive then moveDistance s else - moveDistance s) s)"
| "Movement_step status s ClickHome =
     (if Movement_disabled status s then (s, []) else handleHome s)"
| "Movement_step status s ClickDisableMotors =
     (if Movement_disabled status s then (s, []) else handleDisableMotors s)"
| "Movement_step status s ClickContinue = Movement_handleConfirm s"
| "Movement_step status s ClickCancel = (Movement_onCancel s, [])"
| "Movement_step status s (Settled n c r) =
     (case r of
        None \<Rightarrow> (Movement_settle n c s, [])
      | Some result \<Rightarrow> (Movement_onSuccess c result (Movement_settle n c s), []))"

fun Movement_run ::
  "MovementState \<Rightarrow> (PrinterStatus option \<times> movement_event) list
     \<Rightarrow> MovementState \<times> movement_mutate list" where
  "Movement_run s [] = (s, [])"
| "Movement_run s ((status, ev) # rest) =
     (case Movement_step status s ev of
        (s1, calls) \<Rightarrow> (case Movement_run s1 rest of (s2, later) \<Rightarrow> (s2, calls @ later)))"

definition Movement_initial :: MovementState where
  "Movement_initial = \<lparr> confirmModal = None, moveDistance = 10, home_isPending = False,
                         move_isPending = False, disable_isPending = False,
                         home_calls = 0, move_calls = 0, disable_calls = 0 \<rparr>"

fun movement_token :: "movement_mutate \<Rightarrow> token option" where
  "movement_token (HomeMutate axes tok) = tok"
| "movement_token (MoveMutate axis d tok) = tok"
| "movement_token (DisableMotorsMutate tok) = tok"

fun result_token :: "api_result option \<Rightarrow> token option" where
  "result_token (Some (ConfirmationRequired t w)) = Some t"
| "result_token r = None"

fun movement_event_token :: "movement_event \<Rightarrow> token option" where
  "movement_event_token (Settled n c r) = result_token r"
| "movement_event_token ev = None"

section \<open>TemperaturePanel: handlers and the confirmation prompt\<close>

record TempPreset =
  preset_name :: string
  preset_bed :: real
  preset_nozzle :: real

definition PRESETS :: "TempPreset list" where
  "PRESETS =
     [\<lparr> preset_name = ''Off'', preset_bed = 0, preset_nozzle = 0 \<rparr>,
      \<lparr> preset_name = ''PLA'', preset_bed = 55, preset_nozzle = 220 \<rparr>,
      \<lparr> preset_name = ''PETG'', preset_bed = 70, preset_nozzle = 250 \<rparr>,
      \<lparr> preset_name = ''ABS'', preset_bed = 90, preset_nozzle = 260 \<rparr>,
      \<lparr> preset_name = ''TPU'', preset_bed = 50, preset_nozzle = 230 \<rparr>]"

fun Temperature_begin :: "temperature_mutate \<Rightarrow> TemperatureState \<Rightarrow> TemperatureState" where
  "Temperature_begin (BedMutate target tok) s =
     s\<lparr> bed_isPending := True, bed_calls := Suc (bed_calls s) \<rparr>"
| "Temperature_begin (NozzleMutate target nz tok) s =
     s\<lparr> nozzle_isPending := True, nozzle_calls := Suc (nozzle_calls s) \<rparr>"

fun Temperature_settle ::
  "nat \<Rightarrow> temperature_mutate \<Rightarrow> TemperatureState \<Rightarrow> TemperatureState" where
  "Temperature_settle n (BedMutate target tok) s =
     (if n = bed_calls s then s\<lparr> bed_isPending := False \<rparr> else s)"
| "Temperature_settle n (NozzleMutate target nz tok) s =
     (if n = nozzle_calls s then s\<lparr> nozzle_isPending := False \<rparr> else s)"

fun Temperature_mutate_all ::
  "TemperatureState \<Rightarrow> temperature_mutate list \<Rightarrow> TemperatureState" where
  "Temperature_mutate_all s [] = s"
| "Temperature_mutate_all s (c # cs) = Temperature_mutate_all (Temperature_begin c s) cs"

definition handlePreset ::
  "int \<Rightarrow> TempPreset \<Rightarrow> TemperatureState \<Rightarrow> TemperatureState \<times> temperature_mutate list" where
  "handlePreset nozzleCount preset s =
     (let calls = [BedMutate (preset_bed preset) None, NozzleMutate (preset_nozzle preset) 0 None]
                  @ (if nozzleCount > 1 then [NozzleMutate (preset_nozzle preset) 1 None] else [])
      in (Temperature_mutate_all s calls, calls))"

definition Temperature_handleConfirm ::
  "TemperatureState \<Rightarrow> TemperatureState \<times> temperature_mutate list" where
  "Temperature_handleConfirm s =
     (case tp_confirmModal s of
        None \<Rightarrow> (s, [])
      | Some m \<Rightarrow>
          (let call =
                 (if tc_type m = Bed then BedMutate (tc_target m) (Some (tc_token m))
                  else NozzleMutate (tc_target m)
                         (case tc_nozzle m of None \<Rightarrow> 0 | Some n \<Rightarrow> n) (Some (tc_token m)))
           in ((Temperature_begin call s)\<lparr> tp_confirmModal := None \<rparr>, [call])))"

definition Temperature_onCancel :: "TemperatureState \<Rightarrow> TemperatureState" where
  "Temperature_onCancel s = s\<lparr> tp_confirmModal := None \<rparr>"

definition bed_onSuccess :: "api_result \<Rightarrow> real \<Rightarrow> TemperatureState \<Rightarrow> TemperatureState" where
  "bed_onSuccess result target s =
     (case result of
        ConfirmationRequired t w \<Rightarrow>
          s\<lparr> tp_confirmModal := Some \<lparr> tc_type = Bed, tc_target = target, tc_nozzle = None,
                                       tc_token = t, tc_warning = w \<rparr> \<rparr>
      | Completed \<Rightarrow> s)"

definition nozzle_onSuccess ::
  "api_result \<Rightarrow> real \<Rightarrow> int \<Rightarrow> TemperatureState \<Rightarrow> TemperatureState" where
  "nozzle_onSuccess result target nz s =
     (case result of
        ConfirmationRequired t w \<Rightarrow>
          s\<lparr> tp_confirmModal := Some \<lparr> tc_type = Nozzle, tc_target = target, tc_nozzle = Some nz,
                                       tc_token = t, tc_warning = w \<rparr> \<rparr>
      | Completed \<Rightarrow> s)"

fun Temperature_onSuccess ::
  "temperature_mutate \<Rightarrow> api_result \<Rightarrow> TemperatureState \<Rightarrow> TemperatureState" where
  "Temperature_onSuccess (BedMutate target tok) result s = bed_onSuccess result target s"
| "Temperature_onSuccess (NozzleMutate target nz tok) result s = nozzle_onSuccess result target nz s"

datatype temperature_event =
    ClickPreset TempPreset
  | ClickAdjust heater real int
  | ClickSetTemperature
  | ClickCancelTemperature
  | SettledTemperature nat temperature_mutate "api_result option"

fun Temperature_step ::
  "int \<Rightarrow> PrinterStatus option \<Rightarrow> TemperatureState \<Rightarrow> temperature_event
     \<Rightarrow> TemperatureState \<times> temperature_mutate list" where
  "Temperature_step nozzleCount status s (ClickPreset preset) =
     (if Preset_disabled status then (s, []) else handlePreset nozzleCount preset s)"
| "Temperature_step nozzleCount status s (ClickAdjust ty delta nz) =
     (if (if ty = Bed then BedAdjust_disabled status s else NozzleAdjust_disabled status s)
      then (s, [])
      else (let call = adjustTemp (temps_of status) ty delta nz
            in (Temperature_begin call s, [call])))"
| "Temperature_step nozzleCount status s ClickSetTemperature = Temperature_handleConfirm s"
| "Temperature_step nozzleCount status s ClickCancelTemperature = (Temperature_onCancel s, [])"
| "Temperature_step nozzleCount status s (SettledTemperature n c r) =
     (case r of
        None \<Rightarrow> (Temperature_settle n c s, [])
      | Some result \<Rightarrow> (Temperature_onSuccess c result (Temperature_settle n c s), []))"

fun Temperature_run ::
  "int \<Rightarrow> TemperatureState \<Rightarrow> (PrinterStatus option \<times> temperature_event) list
     \<Rightarrow> TemperatureState \<times> temperature_mutate list" where
  "Temperature_run nozzleCount s [] = (s, [])"
| "Temperature_run nozzleCount s ((status, ev) # rest) =
     (case Temperature_step nozzleCount status s ev of
        (s1, calls) \<Rightarrow>
          (case Temperature_run nozzleCount s1 rest of (s2, later) \<Rightarrow> (s2, calls @ later)))"

definition Temperature_initial :: TemperatureState where
  "Temperature_initial = \<lparr> tp_confirmModal = None, bed_isPending = False,
                            nozzle_isPending = False, bed_calls = 0, nozzle_calls = 0 \<rparr>"

fun temperature_token :: "temperature_mutate \<Rightarrow> token option" where
  "temperature_token (BedMutate target tok) = tok"
| "temperature_token (NozzleMutate target nz tok) = tok"

fun temperature_event_token :: "temperature_event \<Rightarrow> token option" where
  "temperature_event_token (SettledTemperature n c r) = result_token r"
| "temperature_event_token ev = None"

section \<open>The REST calls and the command executor\<close>

text \<open>
  The calls the mutation functions make: \<^verbatim>\<open>api.homeAxes(printerId, axes, token)\<close>,
  \<^verbatim>\<open>api.moveAxis(printerId, axis, distance, 3000, token)\<close>,
  \<^verbatim>\<open>api.disableMotors(printerId, token)\<close>,
  \<^verbatim>\<open>api.setBedTemperature(printerId, target, token)\<close> and
  \<^verbatim>\<open>api.setNozzleTemperature(printerId, target, nozzle, token)\<close>. The stop call is
  made by PrintControls, which is not among the sources; it is listed for the executor.
\<close>

datatype api_call =
    StopPrint nat "token option"
  | HomeAxes nat string "token option"
  | MoveAxis nat string int int "token option"
  | DisableMotors nat "token option"
  | SetBedTemperature nat real "token option"
  | SetNozzleTemperature nat real int "token option"

fun Movement_mutationFn :: "nat \<Rightarrow> movement_mutate \<Rightarrow> api_call" where
  "Movement_mutationFn printerId (HomeMutate axes tok) = HomeAxes printerId axes tok"
| "Movement_mutationFn printerId (MoveMutate axis distance tok) =
     MoveAxis printerId axis distance 3000 tok"
| "Movement_mutationFn printerId (DisableMotorsMutate tok) = DisableMotors printerId tok"

fun Temperature_mutationFn :: "nat \<Rightarrow> temperature_mutate \<Rightarrow> api_call" where
  "Temperature_mutationFn printerId (BedMutate target tok) = SetBedTemperature printerId target tok"
| "Temperature_mutationFn printerId (NozzleMutate target nz tok) =
     SetNozzleTemperature printerId target nz tok"

fun confirm_token :: "api_call \<Rightarrow> token option" where
  "confirm_token (StopPrint p tok) = tok"
| "confirm_token (HomeAxes p axes tok) = tok"
| "confirm_token (MoveAxis p axis d sp tok) = tok"
| "confirm_token (DisableMotors p tok) = tok"
| "confirm_token (SetBedTemperature p target tok) = tok"
| "confirm_token (SetNozzleTemperature p target nz tok) = tok"

fun set_token :: "token option \<Rightarrow> api_call \<Rightarrow> api_call" where
  "set_token t (StopPrint p tok) = StopPrint p t"
| "set_token t (HomeAxes p axes tok) = HomeAxes p axes t"
| "set_token t (MoveAxis p axis d sp tok) = MoveAxis p axis d sp t"
| "set_token t (DisableMotors p tok) = DisableMotors p t"
| "set_token t (SetBedTemperature p target tok) = SetBedTemperature p target t"
| "set_token t (SetNozzleTemperature p target nz tok) = SetNozzleTemperature p target nz t"

text \<open>
  Modelled from the spec: the command executor (the backend behind the REST calls) is
  not among the sources. Section 4.2 of the specification: a dangerous command submitted
  without a token is answered with a challenge and performs nothing; a call with a token
  is validated against the most recently issued challenge for that command kind and
  target, performs the action when it matches, fails with \<open>InvalidOrExpiredToken\<close>
  otherwise, and the token is discarded in both cases; every other command executes in
  one step. Each kind and target has at most one outstanding challenge (section 9).
  Which commands the executor flags as dangerous is its parameter \<open>dangerous\<close>.
\<close>

datatype command_kind = stop | home | move | disableMotors | setBedTemperature | setNozzleTemperature

datatype target = NoTarget | AxisTarget string | HeaterTarget int

fun kind_of :: "api_call \<Rightarrow> command_kind" where
  "kind_of (StopPrint p tok) = stop"
| "kind_of (HomeAxes p axes tok) = home"
| "kind_of (MoveAxis p axis d sp tok) = move"
| "kind_of (DisableMotors p tok) = disableMotors"
| "kind_of (SetBedTemperature p target tok) = setBedTemperature"
| "kind_of (SetNozzleTemperature p target nz tok) = setNozzleTemperature"

fun challenge_key :: "api_call \<Rightarrow> nat \<times> command_kind \<times> target" where
  "challenge_key (StopPrint p tok) = (p, stop, NoTarget)"
| "challenge_key (HomeAxes p axes tok) = (p, home, AxisTarget axes)"
| "challenge_key (MoveAxis p axis d sp tok) = (p, move, AxisTarget axis)"
| "challenge_key (DisableMotors p tok) = (p, disableMotors, NoTarget)"
| "challenge_key (SetBedTemperature p target tok) = (p, setBedTemperature, NoTarget)"
| "challenge_key (SetNozzleTemperature p target nz tok) = (p, setNozzleTemperature, HeaterTarget nz)"

datatype control_error = NotConnected | InvalidOrExpiredToken | ExecutionFailed | Unreachable

text \<open>
  Modelled from the spec: the executor's state is not among the sources. It is the keyed
  table of outstanding challenges (section 9), the number of challenges issued so far
  and the log of the actions performed on the device.
\<close>

record Executor =
  pending :: "nat \<times> command_kind \<times> target \<Rightarrow> token option"
  issued :: nat
  performed :: "api_call list"

text \<open>The opaque token of the \<open>n\<close>-th challenge: \<open>T\<close> followed by \<open>n\<close> strokes.\<close>

definition mint :: "nat \<Rightarrow> token" where
  "mint n = CHR ''T'' # replicate n (CHR ''1'')"

fun warning_of :: "command_kind \<Rightarrow> string" where
  "warning_of stop = ''This will abort the current print.''"
| "warning_of home = ''Homing during a print is not recommended.''"
| "warning_of move = ''Manual movement during printing can damage your print.''"
| "warning_of disableMotors = ''This will disable motors and lose position.''"
| "warning_of k = ''This temperature is above the safety threshold.''"

text \<open>
  Modelled from the spec: one call to the executor (section 4.2), which is not among the
  sources. The result is the executor's new state and either an error or the response.
\<close>

definition execute ::
  "(api_call \<Rightarrow> bool) \<Rightarrow> Executor \<Rightarrow> api_call \<Rightarrow> Executor \<times> (control_error + api_result)" where
  "execute dangerous ex c =
     (if \<not> dangerous (set_token None c)
      then (ex\<lparr> performed := performed ex @ [set_token None c] \<rparr>, Inr Completed)
      else
        (case confirm_token c of
           None \<Rightarrow>
             (ex\<lparr> pending := (pending ex)(challenge_key c := Some (mint (issued ex))),
                  issued := Suc (issued ex) \<rparr>,
              Inr (ConfirmationRequired (mint (issued ex)) (warning_of (kind_of c))))
         | Some t \<Rightarrow>
             (if pending ex (challenge_key c) = Some t
              then (ex\<lparr> pending := (pending ex)(challenge_key c := None),
                        performed := performed ex @ [set_token None c] \<rparr>,
                    Inr Completed)
              else (ex\<lparr> pending := (pending ex)(challenge_key c := None) \<rparr>,
                    Inl InvalidOrExpiredToken))))"

definition Executor_initial :: Executor where
  "Executor_initial = \<lparr> pending = (\<lambda>k. None), issued = 1, performed = [] \<rparr>"

text \<open>The four kinds the specification names as always requiring confirmation.\<close>

definition dangerous_kinds :: "api_call \<Rightarrow> bool" where
  "dangerous_kinds c = (kind_of c = stop \<or> kind_of c = home \<or> kind_of c = move
                         \<or> kind_of c = disableMotors)"

section \<open>Concrete snapshots and states\<close>

text \<open>One AMS unit without an id, holding a tray with no field at all and a tray of
  green PLA.\<close>

definition example_raw_data :: RawData where
  "example_raw_data =
     \<lparr> ams = Some [Some \<lparr> raw_unit_id = None,
                          tray = Some [Some \<lparr> raw_tray_id = None, tray_color = None,
                                              tray_type = None, raw_remain = None \<rparr>,
                                       Some \<lparr> raw_tray_id = Some 1, tray_color = Some ''00AE42'',
                                              tray_type = Some ''PLA'', raw_remain = Some 80 \<rparr>] \<rparr>] \<rparr>"

definition snapshot :: "bool \<Rightarrow> string \<Rightarrow> PrinterStatus" where
  "snapshot c st =
     \<lparr> connected = c, state = st,
       temperatures = Some \<lparr> bed = Some 100, bed_target = Some 100, nozzle = Some 260,
                              nozzle_target = Some 260, nozzle_2 = None, nozzle_2_target = None,
                              chamber = None \<rparr>,
       raw_data = Some example_raw_data \<rparr>"

text \<open>The page as it is mounted, and the page after the user has picked tray 0.\<close>

definition Page_initial :: ControlPageState where
  "Page_initial =
     \<lparr> movement = Movement_initial, temperature = Temperature_initial,
       amsPanel = \<lparr> selectedTray = None, load_isPending = False, unload_isPending = False \<rparr>,
       light_isPending = False, speed_isPending = False \<rparr>"

definition Page_tray_selected :: ControlPageState where
  "Page_tray_selected =
     Page_initial\<lparr> amsPanel := \<lparr> selectedTray = Some 0, load_isPending = False,
                                    unload_isPending = False \<rparr> \<rparr>"

text \<open>The tokens a component holds: the one stored in the prompt and the one captured by
  the prompt's \<^verbatim>\<open>onConfirm\<close> closure.\<close>

definition Movement_held :: "MovementState \<Rightarrow> token set" where
  "Movement_held s =
     (case confirmModal s of
        None \<Rightarrow> {}
      | Some m \<Rightarrow> insert (token m) (set_option (movement_token (onConfirm m))))"

definition Temperature_held :: "TemperatureState \<Rightarrow> token set" where
  "Temperature_held s = (case tp_confirmModal s of None \<Rightarrow> {} | Some m \<Rightarrow> {tc_token m})"

text \<open>The same mutation variables, now carrying a token.\<close>

fun with_token :: "token \<Rightarrow> movement_mutate \<Rightarrow> movement_mutate" where
  "with_token t (HomeMutate axes tok) = HomeMutate axes (Some t)"
| "with_token t (MoveMutate axis d tok) = MoveMutate axis d (Some t)"
| "with_token t (DisableMotorsMutate tok) = DisableMotorsMutate (Some t)"

section \<open>AMSPanel: parsing never throws and fills in defaults\<close>

lemma map_throwing_null:
  "None \<in> set xs \<Longrightarrow> f None = None \<Longrightarrow> map_throwing f xs = None"
  by (induction xs) (auto split: option.splits)

lemma map_throwing_member:
  "map_throwing f xs = Some ys \<Longrightarrow> y \<in> set ys \<Longrightarrow> \<exists>x \<in> set xs. f x = Some y"
proof (induction xs arbitrary: ys)
  case Nil
  then show ?case by simp
next
  case (Cons a xs)
  then show ?case by (auto split: option.splits)
qed

lemma map_throwing_total:
  "(\<And>x. x \<in> set xs \<Longrightarrow> f x \<noteq> None) \<Longrightarrow>
     \<exists>ys. map_throwing f xs = Some ys \<and> length ys = length xs"
proof (induction xs)
  case Nil
  then show ?case by simp
next
  case (Cons a xs)
  then obtain y ys where "f a = Some y" "map_throwing f xs = Some ys" "length ys = length xs"
    by fastforce
  then show ?case by simp
qed

lemma parse_not_null:
  "parse_unit x = Some u \<Longrightarrow> \<exists>r. x = Some r"
  "parse_tray y = Some t \<Longrightarrow> \<exists>r. y = Some r"
  by (cases x; simp add: parse_unit_def) (cases y; simp add: parse_tray_def)

lemma parse_tray_fields:
  "parse_tray (Some rt) = Some t \<Longrightarrow>
     tray_id t = (case raw_tray_id rt of None \<Rightarrow> 0 | Some v \<Rightarrow> v)
     \<and> color t = (case tray_color rt of None \<Rightarrow> ''FFFFFF'' | Some v \<Rightarrow> v)
     \<and> type_name t = (case tray_type rt of None \<Rightarrow> ''Unknown'' | Some v \<Rightarrow> v)
     \<and> remain t = (case raw_remain rt of None \<Rightarrow> 0 | Some v \<Rightarrow> v)
     \<and> active t = False"
  by (auto simp: parse_tray_def)

lemma parse_unit_shape:
  "parse_unit (Some r) = Some u \<Longrightarrow>
     map_throwing parse_tray (case tray r of None \<Rightarrow> [] | Some ts \<Rightarrow> ts) = Some (trays u)
     \<and> unit_id u = (case raw_unit_id r of None \<Rightarrow> 0 | Some v \<Rightarrow> v)"
  by (auto simp: parse_unit_def split: option.splits)

lemma parse_unit_trays:
  assumes "parse_unit (Some r) = Some u" "t \<in> set (trays u)"
  shows "\<exists>ts rt. tray r = Some ts \<and> Some rt \<in> set ts \<and> parse_tray (Some rt) = Some t"
proof -
  note a = parse_unit_shape[OF assms(1)]
  from a assms(2) map_throwing_member[of parse_tray _ "trays u" t] obtain x where
    x: "x \<in> set (case tray r of None \<Rightarrow> [] | Some ts \<Rightarrow> ts)" "parse_tray x = Some t"
    by blast
  from parse_not_null(2)[OF x(2)] obtain rt where "x = Some rt" by blast
  with x show ?thesis by (cases "tray r") auto
qed

lemma parse_unit_total:
  assumes "\<And>ts. tray r = Some ts \<Longrightarrow> None \<notin> set ts"
  shows "parse_unit (Some r) \<noteq> None"
proof -
  have "\<exists>ys. map_throwing parse_tray (case tray r of None \<Rightarrow> [] | Some ts \<Rightarrow> ts) = Some ys
           \<and> length ys = length (case tray r of None \<Rightarrow> [] | Some ts \<Rightarrow> ts)"
  proof (rule map_throwing_total)
    fix x assume "x \<in> set (case tray r of None \<Rightarrow> [] | Some ts \<Rightarrow> ts)"
    with assms have "x \<noteq> None" by (cases "tray r"; cases x) auto
    then show "parse_tray x \<noteq> None" by (auto simp: parse_tray_def)
  qed
  then show ?thesis by (auto simp: parse_unit_def)
qed

lemma parseAMSData_source:
  "u \<in> set (parseAMSData status) \<Longrightarrow>
     \<exists>s rd us. status = Some s \<and> raw_data s = Some rd \<and> ams rd = Some us
        \<and> map_throwing parse_unit us = Some (parseAMSData status)"
  by (auto simp: parseAMSData_def split: option.splits)

lemma parseAMSData_member:
  assumes "u \<in> set (parseAMSData status)"
  shows "\<exists>s rd us r. status = Some s \<and> raw_data s = Some rd \<and> ams rd = Some us
           \<and> Some r \<in> set us \<and> parse_unit (Some r) = Some u"
proof -
  from parseAMSData_source[OF assms] obtain s rd us where
    a: "status = Some s" "raw_data s = Some rd" "ams rd = Some us"
       "map_throwing parse_unit us = Some (parseAMSData status)"
    by blast
  from map_throwing_member[OF a(4) assms] obtain x where
    x: "x \<in> set us" "parse_unit x = Some u" by blast
  from parse_not_null(1)[OF x(2)] obtain r where "x = Some r" by blast
  with a x show ?thesis by blast
qed

lemma parseAMSData_unit_fields:
  assumes "u \<in> set (parseAMSData status)"
  shows "\<exists>s rd us r. status = Some s \<and> raw_data s = Some rd \<and> ams rd = Some us
           \<and> Some r \<in> set us
           \<and> unit_id u = (case raw_unit_id r of None \<Rightarrow> 0 | Some v \<Rightarrow> v)
           \<and> (tray r = None \<longrightarrow> trays u = [])
           \<and> (\<forall>t \<in> set (trays u). \<exists>ts rt. tray r = Some ts \<and> Some rt \<in> set ts
                  \<and> tray_id t = (case raw_tray_id rt of None \<Rightarrow> 0 | Some v \<Rightarrow> v)
                  \<and> color t = (case tray_color rt of None \<Rightarrow> ''FFFFFF'' | Some v \<Rightarrow> v)
                  \<and> type_name t = (case tray_type rt of None \<Rightarrow> ''Unknown'' | Some v \<Rightarrow> v)
                  \<and> remain t = (case raw_remain rt of None \<Rightarrow> 0 | Some v \<Rightarrow> v)
                  \<and> active t = False)"
proof -
  from parseAMSData_member[OF assms] obtain s rd us r where
    a: "status = Some s" "raw_data s = Some rd" "ams rd = Some us" "Some r \<in> set us"
       "parse_unit (Some r) = Some u"
    by blast
  note sh = parse_unit_shape[OF a(5)]
  have no_trays: "tray r = None \<longrightarrow> trays u = []" using sh by auto
  have each: "\<exists>ts rt. tray r = Some ts \<and> Some rt \<in> set ts
                  \<and> tray_id t = (case raw_tray_id rt of None \<Rightarrow> 0 | Some v \<Rightarrow> v)
                  \<and> color t = (case tray_color rt of None \<Rightarrow> ''FFFFFF'' | Some v \<Rightarrow> v)
                  \<and> type_name t = (case tray_type rt of None \<Rightarrow> ''Unknown'' | Some v \<Rightarrow> v)
                  \<and> remain t = (case raw_remain rt of None \<Rightarrow> 0 | Some v \<Rightarrow> v)
                  \<and> active t = False" if "t \<in> set (trays u)" for t
  proof -
    from parse_unit_trays[OF a(5) that] obtain ts rt where
      b: "tray r = Some ts" "Some rt \<in> set ts" "parse_tray (Some rt) = Some t" by blast
    from parse_tray_fields[OF b(3)] b(1,2) show ?thesis by blast
  qed
  show ?thesis
  proof (intro exI[of _ s] exI[of _ rd] exI[of _ us] exI[of _ r] conjI ballI)
    show "status = Some s" "raw_data s = Some rd" "ams rd = Some us" "Some r \<in> set us"
      by (rule a)+
    show "unit_id u = (case raw_unit_id r of None \<Rightarrow> 0 | Some v \<Rightarrow> v)" using sh by simp
    show "tray r = None \<longrightarrow> trays u = []" by (rule no_trays)
  next
    fix t assume "t \<in> set (trays u)"
    then show "\<exists>ts rt. tray r = Some ts \<and> Some rt \<in> set ts
                  \<and> tray_id t = (case raw_tray_id rt of None \<Rightarrow> 0 | Some v \<Rightarrow> v)
                  \<and> color t = (case tray_color rt of None \<Rightarrow> ''FFFFFF'' | Some v \<Rightarrow> v)
                  \<and> type_name t = (case tray_type rt of None \<Rightarrow> ''Unknown'' | Some v \<Rightarrow> v)
                  \<and> remain t = (case raw_remain rt of None \<Rightarrow> 0 | Some v \<Rightarrow> v)
                  \<and> active t = False"
      by (rule each)
  qed
qed

lemma parseAMSData_empty_cases:
  "parseAMSData None = []"
  "raw_data s = None \<Longrightarrow> parseAMSData (Some s) = []"
  "raw_data s = Some rd \<Longrightarrow> ams rd = None \<Longrightarrow> parseAMSData (Some s) = []"
  "raw_data s = Some rd \<Longrightarrow> ams rd = Some us \<Longrightarrow> None \<in> set us \<Longrightarrow> parseAMSData (Some s) = []"
  by (simp_all add: parseAMSData_def map_throwing_null parse_unit_def)

lemma map_throwing_each:
  "map_throwing f xs = Some ys \<Longrightarrow> x \<in> set xs \<Longrightarrow> f x \<noteq> None"
  by (induction xs arbitrary: ys) (auto split: option.splits)

lemma parse_tray_null_caught:
  assumes "raw_data s = Some rd" "ams rd = Some us" "Some r \<in> set us" "tray r = Some ts"
    "None \<in> set ts"
  shows "parseAMSData (Some s) = []"
proof -
  have "parse_unit (Some r) = None"
    using assms(4,5) by (simp add: parse_unit_def map_throwing_null parse_tray_def)
  with map_throwing_each[of parse_unit us _ "Some r"] assms(3)
  have "map_throwing parse_unit us = None"
    by (cases "map_throwing parse_unit us") auto
  with assms(1,2) show ?thesis by (simp add: parseAMSData_def)
qed

lemma parseAMSData_length:
  assumes "raw_data s = Some rd" "ams rd = Some us" "None \<notin> set us"
    "\<And>r ts. Some r \<in> set us \<Longrightarrow> tray r = Some ts \<Longrightarrow> None \<notin> set ts"
  shows "length (parseAMSData (Some s)) = length us"
proof -
  have "\<exists>ys. map_throwing parse_unit us = Some ys \<and> length ys = length us"
  proof (rule map_throwing_total)
    fix x assume x: "x \<in> set us"
    with assms(3) obtain r where r: "x = Some r" by (cases x) auto
    with x assms(4) have "\<And>ts. tray r = Some ts \<Longrightarrow> None \<notin> set ts" by blast
    from parse_unit_total[OF this] r show "parse_unit x \<noteq> None" by simp
  qed
  with assms(1,2) show ?thesis by (auto simp: parseAMSData_def)
qed

text \<open>
  C8. \<^verbatim>\<open>parseAMSData\<close> returns a list for every input. A missing status, a status without
  \<^verbatim>\<open>raw_data\<close> and raw data without an \<^verbatim>\<open>ams\<close> array give the empty list; a
  \<^verbatim>\<open>null\<close> unit or tray, whose property read throws, is caught and gives the empty
  list as well. When no element is \<^verbatim>\<open>null\<close> there is one parsed unit for each raw
  unit. Every parsed unit comes from a raw unit, with id 0 when the raw id is missing and
  no trays when the tray array is missing; every parsed tray comes from a raw tray, with
  id 0, colour FFFFFF, type Unknown and remain 0 for the missing fields, and is never
  active.
\<close>

theorem parseAMSData_total_with_defaults:
  "parseAMSData None = []
   \<and> (raw_data s = None \<longrightarrow> parseAMSData (Some s) = [])
   \<and> (raw_data s = Some rd \<and> ams rd = None \<longrightarrow> parseAMSData (Some s) = [])
   \<and> (raw_data s = Some rd \<and> ams rd = Some us \<and> None \<in> set us \<longrightarrow> parseAMSData (Some s) = [])
   \<and> (raw_data s = Some rd \<and> ams rd = Some us \<and> Some r \<in> set us \<and> tray r = Some ts
        \<and> None \<in> set ts \<longrightarrow> parseAMSData (Some s) = [])
   \<and> (raw_data s = Some rd \<and> ams rd = Some us \<and> None \<notin> set us
        \<and> (\<forall>r ts. Some r \<in> set us \<and> tray r = Some ts \<longrightarrow> None \<notin> set ts)
        \<longrightarrow> length (parseAMSData (Some s)) = length us)
   \<and> (\<forall>u \<in> set (parseAMSData status).
         \<exists>s rd us r. status = Some s \<and> raw_data s = Some rd \<and> ams rd = Some us
           \<and> Some r \<in> set us
           \<and> unit_id u = (case raw_unit_id r of None \<Rightarrow> 0 | Some v \<Rightarrow> v)
           \<and> (tray r = None \<longrightarrow> trays u = [])
           \<and> (\<forall>t \<in> set (trays u). \<exists>ts rt. tray r = Some ts \<and> Some rt \<in> set ts
                  \<and> tray_id t = (case raw_tray_id rt of None \<Rightarrow> 0 | Some v \<Rightarrow> v)
                  \<and> color t = (case tray_color rt of None \<Rightarrow> ''FFFFFF'' | Some v \<Rightarrow> v)
                  \<and> type_name t = (case tray_type rt of None \<Rightarrow> ''Unknown'' | Some v \<Rightarrow> v)
                  \<and> remain t = (case raw_remain rt of None \<Rightarrow> 0 | Some v \<Rightarrow> v)
                  \<and> active t = False))"
proof (intro conjI)
  show "parseAMSData None = []"
    by (rule parseAMSData_empty_cases(1))
  show "raw_data s = None \<longrightarrow> parseAMSData (Some s) = []"
    using parseAMSData_empty_cases(2) by blast
  show "raw_data s = Some rd \<and> ams rd = None \<longrightarrow> parseAMSData (Some s) = []"
    using parseAMSData_empty_cases(3) by blast
  show "raw_data s = Some rd \<and> ams rd = Some us \<and> None \<in> set us \<longrightarrow> parseAMSData (Some s) = []"
    using parseAMSData_empty_cases(4) by blast
  show "raw_data s = Some rd \<and> ams rd = Some us \<and> Some r \<in> set us \<and> tray r = Some ts
        \<and> None \<in> set ts \<longrightarrow> parseAMSData (Some s) = []"
    using parse_tray_null_caught[of s rd us r ts] by blast
  show "raw_data s = Some rd \<and> ams rd = Some us \<and> None \<notin> set us
        \<and> (\<forall>r ts. Some r \<in> set us \<and> tray r = Some ts \<longrightarrow> None \<notin> set ts)
        \<longrightarrow> length (parseAMSData (Some s)) = length us"
    using parseAMSData_length[of s rd us] by blast
  show "\<forall>u \<in> set (parseAMSData status).
         \<exists>s rd us r. status = Some s \<and> raw_data s = Some rd \<and> ams rd = Some us
           \<and> Some r \<in> set us
           \<and> unit_id u = (case raw_unit_id r of None \<Rightarrow> 0 | Some v \<Rightarrow> v)
           \<and> (tray r = None \<longrightarrow> trays u = [])
           \<and> (\<forall>t \<in> set (trays u). \<exists>ts rt. tray r = Some ts \<and> Some rt \<in> set ts
                  \<and> tray_id t = (case raw_tray_id rt of None \<Rightarrow> 0 | Some v \<Rightarrow> v)
                  \<and> color t = (case tray_color rt of None \<Rightarrow> ''FFFFFF'' | Some v \<Rightarrow> v)
                  \<and> type_name t = (case tray_type rt of None \<Rightarrow> ''Unknown'' | Some v \<Rightarrow> v)
                  \<and> remain t = (case raw_remain rt of None \<Rightarrow> 0 | Some v \<Rightarrow> v)
                  \<and> active t = False)"
    by (rule ballI) (rule parseAMSData_unit_fields)
qed

lemma parseAMSData_example:
  "parseAMSData (Some (snapshot c st)) =
     [\<lparr> unit_id = 0,
        trays = [\<lparr> tray_id = 0, color = ''FFFFFF'', type_name = ''Unknown'', remain = 0,
                   active = False \<rparr>,
                 \<lparr> tray_id = 1, color = ''00AE42'', type_name = ''PLA'', remain = 80,
                   active = False \<rparr>] \<rparr>]"
  by (simp add: parseAMSData_def snapshot_def example_raw_data_def parse_unit_def parse_tray_def)

theorem parseAMSData_total_with_defaults_witness:
  "raw_data (snapshot True ''IDLE'') = Some example_raw_data
   \<and> length (parseAMSData (Some (snapshot True ''IDLE''))) = 1
   \<and> parseAMSData (Some (snapshot True ''IDLE'')) =
     [\<lparr> unit_id = 0,
        trays = [\<lparr> tray_id = 0, color = ''FFFFFF'', type_name = ''Unknown'', remain = 0,
                   active = False \<rparr>,
                 \<lparr> tray_id = 1, color = ''00AE42'', type_name = ''PLA'', remain = 80,
                   active = False \<rparr>] \<rparr>]
   \<and> parseAMSData (Some ((snapshot True ''IDLE'')\<lparr> raw_data := None \<rparr>)) = []"
  using parseAMSData_total_with_defaults
    [where s = "(snapshot True ''IDLE'')\<lparr> raw_data := None \<rparr>"]
  by (simp add: parseAMSData_example) (simp add: snapshot_def)

section \<open>AMSPanel: the global tray id\<close>

lemma to_double_exact: "\<bar>n\<bar> \<le> 2 ^ 53 \<Longrightarrow> to_double n = Some n"
  by (simp add: to_double_def)

lemma shown_number_exact: "0 \<le> i \<Longrightarrow> i < 2 ^ 53 \<Longrightarrow> shown_number i = Some (i + 1)"
  by (simp add: shown_number_def js_add_def to_double_exact)

text \<open>
  C9 (amended). For an integer unit id \<open>u\<close> with \<open>0 \<le> u\<close> and a tray id
  \<open>0 \<le> t \<le> 3\<close> such that \<open>u * 4 + t \<le> 2 ^ 53\<close>, the global tray id is computed
  exactly, \<open>g = u * 4 + t\<close>, and round-trips: \<open>g % 4 = t\<close> and \<open>floor (g / 4) = u\<close>, so
  the line "Selected: Slot" shows slot \<open>t + 1\<close> and AMS \<open>u + 1\<close>, the numbers printed
  on the tray button and in the unit header.
\<close>

theorem globalTrayId_roundtrip:
  assumes "0 \<le> u" and "0 \<le> t" and "t \<le> 3" and "u * 4 + t \<le> 2 ^ 53"
  shows "globalTrayId u t = Some (u * 4 + t)
     \<and> js_rem (u * 4 + t) 4 = t \<and> (u * 4 + t) div 4 = u
     \<and> selected_slot (globalTrayId u t) = Some (t + 1)
     \<and> selected_ams (globalTrayId u t) = Some (u + 1)
     \<and> shown_number t = Some (t + 1) \<and> shown_number u = Some (u + 1)"
proof -
  let ?g = "u * 4 + t"
  have m: "js_mul (Some u) (Some 4) = Some (u * 4)"
    using assms by (simp add: js_mul_def to_double_exact)
  have g: "globalTrayId u t = Some ?g"
    using assms m by (simp add: globalTrayId_def js_add_def to_double_exact)
  have nonneg: "0 \<le> ?g" using assms by simp
  have quot: "?g div 4 = u" using assms by simp
  have md: "?g mod 4 = t" using assms by simp
  have rem: "js_rem ?g 4 = t"
  proof (cases "?g = 0")
    case True
    with md show ?thesis by (simp add: js_rem_def)
  next
    case False
    with nonneg have "sgn ?g = 1" and "\<bar>?g\<bar> = ?g" by simp_all
    with md show ?thesis by (simp add: js_rem_def)
  qed
  have lt: "shown_number t = Some (t + 1)"
    using assms by (simp add: shown_number_exact)
  have lu: "shown_number u = Some (u + 1)"
    using assms by (simp add: shown_number_exact)
  have slot: "selected_slot (globalTrayId u t) = Some (t + 1)"
    using lt by (simp add: g selected_slot_def rem shown_number_def)
  have unit: "selected_ams (globalTrayId u t) = Some (u + 1)"
    using lu by (simp add: g selected_ams_def quot shown_number_def)
  from g rem quot slot unit lt lu show ?thesis by simp
qed

theorem globalTrayId_roundtrip_witness:
  "(0::int) \<le> 2 \<and> (0::int) \<le> 3 \<and> (3::int) \<le> 3 \<and> (2::int) * 4 + 3 \<le> 2 ^ 53
   \<and> globalTrayId 2 3 = Some 11
   \<and> js_rem 11 4 = 3 \<and> (11::int) div 4 = 2
   \<and> selected_slot (globalTrayId 2 3) = Some 4 \<and> selected_ams (globalTrayId 2 3) = Some 3
   \<and> shown_number 3 = Some 4 \<and> shown_number 2 = Some 3"
  using globalTrayId_roundtrip [of 2 3]
  by (simp add: js_rem_def selected_slot_def selected_ams_def js_add_def to_double_def)

text \<open>
  C9 as stated fails. For the unit id \<open>-1\<close> and the tray id 1 the global tray id is
  \<open>-3\<close>; \<open>-3 % 4\<close> is \<open>-3\<close>, not 1, and the line shows slot \<open>-2\<close> where the tray
  button shows 2. For the unit id \<open>2 ^ 51\<close> and the tray id 3 the sum
  \<open>2 ^ 53 + 3\<close> is not a double and is rounded to \<open>2 ^ 53 + 4\<close>; the line shows slot 1
  where the tray button shows 4. For the tray id 1 of the same unit the sum is rounded
  to \<open>2 ^ 53\<close>, and the line shows slot 1 where the button shows 2.
\<close>

theorem globalTrayId_roundtrip_fails:
  "globalTrayId (- 1) 1 = Some (- 3) \<and> js_rem (- 3) 4 = - 3
   \<and> selected_slot (globalTrayId (- 1) 1) = Some (- 2) \<and> shown_number 1 = Some 2
   \<and> globalTrayId (2 ^ 51) 3 = Some 9007199254740996
   \<and> selected_slot (globalTrayId (2 ^ 51) 3) = Some 1 \<and> shown_number 3 = Some 4
   \<and> globalTrayId (2 ^ 51) 1 = Some 9007199254740992
   \<and> selected_slot (globalTrayId (2 ^ 51) 1) = Some 1"
  by code_simp

section \<open>TemperaturePanel: the adjustment stays in range\<close>

lemma clamped_in_range:
  fixes hi x :: real
  assumes "0 \<le> hi"
  shows "0 \<le> max 0 (min hi x) \<and> max 0 (min hi x) \<le> hi"
  using assms by simp

lemma adjustTemp_bed:
  "\<exists>x. adjustTemp temps Bed delta nz = BedMutate x None \<and> 0 \<le> x \<and> x \<le> 120"
proof -
  have "adjustTemp temps Bed delta nz
          = BedMutate (max 0 (min 120 (or_zero (bed_target temps) + delta))) None"
    by (simp add: adjustTemp_def Let_def)
  with clamped_in_range[of 120] show ?thesis by simp
qed

lemma adjustTemp_nozzle:
  "\<exists>x. adjustTemp temps Nozzle delta nz = NozzleMutate x nz None \<and> 0 \<le> x \<and> x \<le> 300"
proof -
  let ?cur = "if nz = 0 then or_zero (nozzle_target temps) else or_zero (nozzle_2_target temps)"
  have "adjustTemp temps Nozzle delta nz
          = NozzleMutate (max 0 (min 300 (?cur + delta))) nz None"
    by (simp add: adjustTemp_def Let_def)
  with clamped_in_range[of 300] show ?thesis by simp
qed

text \<open>
  C10. For every current target temperature and every delta, \<^verbatim>\<open>adjustTemp\<close> requests a
  clamped target: for the bed a tokenless bed request with \<open>0 \<le> target \<le> 120\<close>, for a
  nozzle a tokenless request for that nozzle with \<open>0 \<le> target \<le> 300\<close>; a click on a
  +/- button issues no other call.
\<close>

theorem adjustTemp_clamped:
  "(\<exists>x. adjustTemp temps Bed delta nz = BedMutate x None \<and> 0 \<le> x \<and> x \<le> 120)
   \<and> (\<exists>x. adjustTemp temps Nozzle delta nz = NozzleMutate x nz None \<and> 0 \<le> x \<and> x \<le> 300)
   \<and> (\<forall>m \<in> set (snd (Temperature_step nozzleCount status ts (ClickAdjust Bed delta nz))).
         \<exists>x. m = BedMutate x None \<and> 0 \<le> x \<and> x \<le> 120)
   \<and> (\<forall>m \<in> set (snd (Temperature_step nozzleCount status ts (ClickAdjust Nozzle delta nz))).
         \<exists>x. m = NozzleMutate x nz None \<and> 0 \<le> x \<and> x \<le> 300)"
proof (intro conjI ballI)
  show "\<exists>x. adjustTemp temps Bed delta nz = BedMutate x None \<and> 0 \<le> x \<and> x \<le> 120"
    by (rule adjustTemp_bed)
  show "\<exists>x. adjustTemp temps Nozzle delta nz = NozzleMutate x nz None \<and> 0 \<le> x \<and> x \<le> 300"
    by (rule adjustTemp_nozzle)
next
  fix m
  assume "m \<in> set (snd (Temperature_step nozzleCount status ts (ClickAdjust Bed delta nz)))"
  then have "m = adjustTemp (temps_of status) Bed delta nz"
    by (simp add: Let_def split: if_splits)
  with adjustTemp_bed[of "temps_of status" delta nz]
  show "\<exists>x. m = BedMutate x None \<and> 0 \<le> x \<and> x \<le> 120" by simp
next
  fix m
  assume "m \<in> set (snd (Temperature_step nozzleCount status ts (ClickAdjust Nozzle delta nz)))"
  then have "m = adjustTemp (temps_of status) Nozzle delta nz"
    by (simp add: Let_def split: if_splits)
  with adjustTemp_nozzle[of "temps_of status" delta nz]
  show "\<exists>x. m = NozzleMutate x nz None \<and> 0 \<le> x \<and> x \<le> 300" by simp
qed

theorem adjustTemp_clamped_witness:
  "adjustTemp (temps_of (Some (snapshot True ''IDLE''))) Bed 25 0 = BedMutate 120 None
   \<and> adjustTemp (temps_of (Some (snapshot True ''IDLE''))) Nozzle (-500) 0 = NozzleMutate 0 0 None
   \<and> adjustTemp (temps_of None) Nozzle 5 1 = NozzleMutate 5 1 None
   \<and> snd (Temperature_step 1 (Some (snapshot True ''IDLE'')) Temperature_initial
             (ClickAdjust Bed 5 0)) = [BedMutate 105 None]"
  using adjustTemp_clamped
    [where temps = "temps_of None" and delta = 5 and nz = 1 and nozzleCount = 1
       and status = "Some (snapshot True ''IDLE'')" and ts = Temperature_initial]
  by (simp add: adjustTemp_def temps_of_def snapshot_def or_zero_def BedAdjust_disabled_def
        isConnected_def Temperature_initial_def)

section \<open>The control surface against the permission table\<close>

lemmas disabled_defs =
  FanSlider_disabled_def LightToggle_disabled_def Movement_disabled_def Preset_disabled_def
  BedAdjust_disabled_def NozzleAdjust_disabled_def Load_disabled_def Unload_disabled_def
  Speed_disabled_def

lemmas printing_defs = Movement_isPrinting_def AMS_isPrinting_def Speed_isPrinting_def

lemmas page_defs =
  Page_initial_def Page_tray_selected_def Movement_initial_def Temperature_initial_def
  no_pending_def Movement_isLoading_def AMS_isLoading_def

lemma state_is_Some [simp]: "state_is (Some s) x = (state s = x)"
  by (simp add: state_is_def)

lemma isConnected_Some [simp]: "isConnected (Some s) = connected s"
  by (simp add: isConnected_def)

lemma isConnected_None [simp]: "\<not> isConnected None"
  by (simp add: isConnected_def)

lemma snapshot_fields [simp]:
  "connected (snapshot c st) = c" "state (snapshot c st) = st"
  by (simp_all add: snapshot_def)

lemma snapshot_has_AMS [simp]: "AMS_buttons_rendered (Some (snapshot c st))"
  by (simp add: AMS_buttons_rendered_def parseAMSData_example)

text \<open>AMSPanel tests only \<^verbatim>\<open>RUNNING\<close>: in \<^verbatim>\<open>PAUSE\<close> Load and Unload keep working.\<close>

lemma AMS_buttons_in_PAUSE:
  "connected s \<Longrightarrow> state s = ''PAUSE'' \<Longrightarrow> \<not> AMS_isLoading a \<Longrightarrow>
     \<not> Unload_disabled (Some s) a \<and> (selectedTray a \<noteq> None \<longrightarrow> \<not> Load_disabled (Some s) a)"
  by (simp add: disabled_defs printing_defs)

text \<open>
  C1 (amended). For the categories whose controls are among the sources (temperature,
  speed mode, fans, movement/home, AMS load/unload, disable motors) and every state in
  IDLE, RUNNING, PAUSE, FINISH, with connected = true, no mutation pending, a tray
  selected and an AMS unit reported: for every pair of a category and a state other than
  (movement/home, RUNNING) and (AMS load/unload, PAUSE), a control can be used exactly
  when the table entry is not "disabled". The movement and home buttons can be used in
  every one of the four states, RUNNING included, where the entry says disabled. About
  AMS load/unload in PAUSE nothing is stated. In particular the speed buttons are usable
  only in RUNNING, and Load and Unload are disabled in RUNNING and usable in IDLE and
  FINISH.
\<close>

theorem controls_agree_with_table_except_movement:
  assumes "connected s" and "state s = state_name st" and "no_pending page"
    and "selectedTray (amsPanel page) \<noteq> None" and "AMS_buttons_rendered (Some s)"
  shows "(\<forall>cat \<in> set implemented_categories.
            (cat, st) \<noteq> (MovementHomeCat, RUNNING) \<and> (cat, st) \<noteq> (AmsLoadUnloadCat, PAUSE)
            \<longrightarrow> agrees_with_table (Some s) page cat st)
       \<and> list_all (control_usable (Some s) page) (controls_of MovementHomeCat)
       \<and> (control_usable (Some s) page SpeedButton = (st = RUNNING))
       \<and> (st = RUNNING \<longrightarrow> \<not> control_usable (Some s) page LoadButton
                             \<and> \<not> control_usable (Some s) page UnloadButton)
       \<and> (st = IDLE \<or> st = FINISH \<longrightarrow> control_usable (Some s) page LoadButton
                                         \<and> control_usable (Some s) page UnloadButton)"
  using assms
  by (cases st)
     (simp_all add: implemented_categories_def agrees_with_table_def control_usable_def
        disabled_defs printing_defs no_pending_def)

theorem controls_agree_with_table_except_movement_witness:
  "connected (snapshot True ''RUNNING'') \<and> state (snapshot True ''RUNNING'') = state_name RUNNING
   \<and> no_pending Page_tray_selected \<and> selectedTray (amsPanel Page_tray_selected) = Some 0
   \<and> AMS_buttons_rendered (Some (snapshot True ''RUNNING''))
   \<and> agrees_with_table (Some (snapshot True ''RUNNING'')) Page_tray_selected SpeedModeCat RUNNING
   \<and> agrees_with_table (Some (snapshot True ''RUNNING'')) Page_tray_selected AmsLoadUnloadCat RUNNING
   \<and> agrees_with_table (Some (snapshot True ''RUNNING'')) Page_tray_selected FansCat RUNNING
   \<and> control_usable (Some (snapshot True ''RUNNING'')) Page_tray_selected HomeButton
   \<and> control_usable (Some (snapshot True ''RUNNING'')) Page_tray_selected SpeedButton
   \<and> \<not> control_usable (Some (snapshot True ''RUNNING'')) Page_tray_selected LoadButton"
  using controls_agree_with_table_except_movement
    [of "snapshot True ''RUNNING''" RUNNING Page_tray_selected]
  by (simp add: page_defs implemented_categories_def)

text \<open>C1 as stated fails: while a print is RUNNING the Home button of a connected
  printer can be used, and the table says movement/home is disabled.\<close>

theorem movement_usable_while_RUNNING:
  "spec_permission_table MovementHomeCat RUNNING = Disabled
   \<and> control_usable (Some (snapshot True ''RUNNING'')) Page_initial HomeButton
   \<and> control_usable (Some (snapshot True ''RUNNING'')) Page_initial MoveButton
   \<and> \<not> agrees_with_table (Some (snapshot True ''RUNNING'')) Page_initial MovementHomeCat RUNNING"
  by (simp add: control_usable_def disabled_defs page_defs agrees_with_table_def)

text \<open>
  If the latest snapshot reports connected = false, or there is no snapshot, every
  command-triggering control of the fan, light, movement, temperature, AMS and speed
  components is disabled, whatever the state and whatever else the page holds; a click
  on a button of the movement or temperature panel then issues no call.
\<close>

lemma disconnected_disables_every_control:
  assumes "\<not> isConnected status"
  shows "control_disabled status page c \<and> \<not> control_usable status page c
     \<and> snd (Movement_step status ms (ClickMove axis positive)) = []
     \<and> snd (Movement_step status ms ClickHome) = []
     \<and> snd (Movement_step status ms ClickDisableMotors) = []
     \<and> snd (Temperature_step nozzleCount status ts (ClickPreset preset)) = []
     \<and> snd (Temperature_step nozzleCount status ts (ClickAdjust ty delta nz)) = []"
  using assms by (cases c) (simp_all add: control_usable_def disabled_defs)

text \<open>
  C7 (amended). For a state outside IDLE, RUNNING, PAUSE, FINISH (FAILED, or an unknown
  string) and connected = true, every control decides exactly as it does for IDLE: the
  speed buttons are disabled, and every other control stays enabled when no mutation is
  pending (Load also needs a selected tray). The components have no default that
  disables on an unknown state.
\<close>

theorem unknown_state_decides_like_IDLE:
  assumes "connected s" and "state s \<notin> {''IDLE'', ''RUNNING'', ''PAUSE'', ''FINISH''}"
  shows "control_disabled (Some s) page c = control_disabled (Some (s\<lparr> state := ''IDLE'' \<rparr>)) page c
     \<and> control_disabled (Some s) page SpeedButton
     \<and> (no_pending page \<and> c \<noteq> SpeedButton
          \<and> (c = LoadButton \<longrightarrow> selectedTray (amsPanel page) \<noteq> None)
          \<longrightarrow> \<not> control_disabled (Some s) page c)"
  using assms
  by (cases c) (simp_all add: disabled_defs printing_defs no_pending_def)

theorem unknown_state_decides_like_IDLE_witness:
  "connected (snapshot True ''FAILED'')
   \<and> state (snapshot True ''FAILED'') \<notin> {''IDLE'', ''RUNNING'', ''PAUSE'', ''FINISH''}
   \<and> no_pending Page_tray_selected
   \<and> control_disabled (Some (snapshot True ''FAILED'')) Page_tray_selected SpeedButton
   \<and> \<not> control_disabled (Some (snapshot True ''FAILED'')) Page_tray_selected HomeButton
   \<and> \<not> control_disabled (Some (snapshot True ''FAILED'')) Page_tray_selected LoadButton"
  using unknown_state_decides_like_IDLE [of "snapshot True ''FAILED''" Page_tray_selected HomeButton]
        unknown_state_decides_like_IDLE [of "snapshot True ''FAILED''" Page_tray_selected LoadButton]
  by (simp add: page_defs disabled_defs printing_defs)

text \<open>C7 as stated fails: with state FAILED and connected = true the fan sliders,
  the light button, the jog and Home buttons and the temperature presets are enabled.\<close>

theorem FAILED_state_leaves_controls_enabled:
  "\<not> control_disabled (Some (snapshot True ''FAILED'')) Page_initial PartFanSlider
   \<and> \<not> control_disabled (Some (snapshot True ''FAILED'')) Page_initial LightButton
   \<and> \<not> control_disabled (Some (snapshot True ''FAILED'')) Page_initial HomeButton
   \<and> \<not> control_disabled (Some (snapshot True ''FAILED'')) Page_initial PresetButton
   \<and> control_usable (Some (snapshot True ''FAILED'')) Page_initial UnloadButton"
  by (simp add: control_usable_def disabled_defs printing_defs page_defs)


section \<open>The confirmation handshake\<close>

lemmas handler_defs =
  handleHome_def handleMove_def handleDisableMotors_def Movement_mutate_def
  Movement_handleConfirm_def Movement_onCancel_def home_onSuccess_def move_onSuccess_def
  disable_onSuccess_def

lemmas temperature_defs =
  handlePreset_def Temperature_handleConfirm_def Temperature_onCancel_def bed_onSuccess_def
  nozzle_onSuccess_def adjustTemp_def

lemma Movement_begin_modal [simp]:
  "confirmModal (Movement_begin c s) = confirmModal s"
  by (cases c) simp_all

lemma Movement_settle_modal [simp]:
  "confirmModal (Movement_settle n c s) = confirmModal s"
  by (cases c) simp_all

lemma Temperature_begin_modal [simp]:
  "tp_confirmModal (Temperature_begin c s) = tp_confirmModal s"
  by (cases c) simp_all

lemma Temperature_settle_modal [simp]:
  "tp_confirmModal (Temperature_settle n c s) = tp_confirmModal s"
  by (cases c) simp_all

lemma Temperature_mutate_all_modal [simp]:
  "tp_confirmModal (Temperature_mutate_all s cs) = tp_confirmModal s"
  by (induction cs arbitrary: s) simp_all

lemma set_token_key [simp]: "challenge_key (set_token t c) = challenge_key c"
  by (cases c) simp_all

lemma set_token_token [simp]: "confirm_token (set_token t c) = t"
  by (cases c) simp_all

lemma set_token_twice [simp]: "set_token t (set_token u c) = set_token t c"
  by (cases c) simp_all


lemma mutationFn_token [simp]:
  "confirm_token (Movement_mutationFn p m) = movement_token m"
  "confirm_token (Temperature_mutationFn p tm) = temperature_token tm"
  by (cases m; simp) (cases tm; simp)

lemma movement_calls_dangerous [simp]:
  "dangerous_kinds (set_token t (Movement_mutationFn p m))"
  by (cases m) (simp_all add: dangerous_kinds_def)

lemma first_clicks_carry_no_token:
  "ev \<noteq> ClickContinue \<Longrightarrow> m \<in> set (snd (Movement_step status s ev)) \<Longrightarrow> movement_token m = None"
  by (cases ev) (auto simp: handler_defs split: option.splits if_splits)

lemma execute_tokenless:
  "dangerous (set_token None c) \<Longrightarrow> confirm_token c = None \<Longrightarrow>
     performed (fst (execute dangerous ex c)) = performed ex
     \<and> (\<exists>t w. snd (execute dangerous ex c) = Inr (ConfirmationRequired t w)
              \<and> pending (fst (execute dangerous ex c)) (challenge_key c) = Some t)"
  by (simp add: execute_def)

lemma execute_performs_only_with_token:
  "dangerous (set_token None c) \<Longrightarrow> performed (fst (execute dangerous ex c)) \<noteq> performed ex \<Longrightarrow>
     \<exists>t. confirm_token c = Some t \<and> pending ex (challenge_key c) = Some t
         \<and> performed (fst (execute dangerous ex c)) = performed ex @ [set_token None c]"
  by (auto simp: execute_def split: option.splits if_splits)

lemma execute_issues_only_by_challenge:
  "pending (fst (execute dangerous ex c)) k = Some t \<Longrightarrow> pending ex k \<noteq> Some t \<Longrightarrow>
     k = challenge_key c \<and> confirm_token c = None
     \<and> snd (execute dangerous ex c) = Inr (ConfirmationRequired t (warning_of (kind_of c)))"
  by (auto simp: execute_def split: option.splits if_splits)

text \<open>
  C2. A dangerous command submitted without a token performs nothing and is answered by
  a challenge whose token becomes the pending one for that command; the executor
  performs a dangerous command only when the call carries the token pending for it, and
  a token becomes pending only through such a challenge. On the client,
  \<^verbatim>\<open>handleHome\<close>, \<^verbatim>\<open>handleMove\<close> and \<^verbatim>\<open>handleDisableMotors\<close> submit without a token, and
  no event but the prompt's Continue issues a call that carries one. With home, move,
  disableMotors and stop flagged as dangerous, each first submission of the movement
  panel, and a tokenless stop, performs nothing and yields a challenge.
\<close>

theorem tokenless_call_only_challenges:
  "(dangerous (set_token None c) \<and> confirm_token c = None \<longrightarrow>
      performed (fst (execute dangerous ex c)) = performed ex
      \<and> (\<exists>t w. snd (execute dangerous ex c) = Inr (ConfirmationRequired t w)
               \<and> pending (fst (execute dangerous ex c)) (challenge_key c) = Some t))
   \<and> (dangerous (set_token None c) \<and> performed (fst (execute dangerous ex c)) \<noteq> performed ex \<longrightarrow>
      (\<exists>t. confirm_token c = Some t \<and> pending ex (challenge_key c) = Some t
           \<and> performed (fst (execute dangerous ex c)) = performed ex @ [set_token None c]))
   \<and> (pending (fst (execute dangerous ex c)) k = Some t \<and> pending ex k \<noteq> Some t \<longrightarrow>
      k = challenge_key c \<and> confirm_token c = None
      \<and> snd (execute dangerous ex c) = Inr (ConfirmationRequired t (warning_of (kind_of c))))
   \<and> snd (handleHome s) = [HomeMutate ''XYZ'' None]
   \<and> snd (handleMove axis d s) = [MoveMutate axis d None]
   \<and> snd (handleDisableMotors s) = [DisableMotorsMutate None]
   \<and> (ev \<noteq> ClickContinue \<longrightarrow>
        (\<forall>m \<in> set (snd (Movement_step status s ev)). movement_token m = None))
   \<and> (\<forall>m \<in> set (snd (handleHome s) @ snd (handleMove axis d s) @ snd (handleDisableMotors s)).
        performed (fst (execute dangerous_kinds ex (Movement_mutationFn printerId m))) = performed ex
        \<and> (\<exists>t w. snd (execute dangerous_kinds ex (Movement_mutationFn printerId m))
                   = Inr (ConfirmationRequired t w)))
   \<and> performed (fst (execute dangerous_kinds ex (StopPrint printerId None))) = performed ex
   \<and> (\<exists>t w. snd (execute dangerous_kinds ex (StopPrint printerId None))
              = Inr (ConfirmationRequired t w))"
proof (intro conjI)
  show "dangerous (set_token None c) \<and> confirm_token c = None \<longrightarrow>
      performed (fst (execute dangerous ex c)) = performed ex
      \<and> (\<exists>t w. snd (execute dangerous ex c) = Inr (ConfirmationRequired t w)
               \<and> pending (fst (execute dangerous ex c)) (challenge_key c) = Some t)"
    using execute_tokenless[of dangerous c ex] by blast
  show "dangerous (set_token None c) \<and> performed (fst (execute dangerous ex c)) \<noteq> performed ex \<longrightarrow>
      (\<exists>t. confirm_token c = Some t \<and> pending ex (challenge_key c) = Some t
           \<and> performed (fst (execute dangerous ex c)) = performed ex @ [set_token None c])"
    using execute_performs_only_with_token[of dangerous c ex] by blast
  show "pending (fst (execute dangerous ex c)) k = Some t \<and> pending ex k \<noteq> Some t \<longrightarrow>
      k = challenge_key c \<and> confirm_token c = None
      \<and> snd (execute dangerous ex c) = Inr (ConfirmationRequired t (warning_of (kind_of c)))"
    using execute_issues_only_by_challenge[of dangerous ex c k t] by blast
  show "snd (handleHome s) = [HomeMutate ''XYZ'' None]"
    by (simp add: handler_defs)
  show "snd (handleMove axis d s) = [MoveMutate axis d None]"
    by (simp add: handler_defs)
  show "snd (handleDisableMotors s) = [DisableMotorsMutate None]"
    by (simp add: handler_defs)
  show "ev \<noteq> ClickContinue \<longrightarrow>
        (\<forall>m \<in> set (snd (Movement_step status s ev)). movement_token m = None)"
    using first_clicks_carry_no_token by blast
  show "\<forall>m \<in> set (snd (handleHome s) @ snd (handleMove axis d s) @ snd (handleDisableMotors s)).
        performed (fst (execute dangerous_kinds ex (Movement_mutationFn printerId m))) = performed ex
        \<and> (\<exists>t w. snd (execute dangerous_kinds ex (Movement_mutationFn printerId m))
                   = Inr (ConfirmationRequired t w))"
    by (simp add: handler_defs execute_def dangerous_kinds_def)
  show "performed (fst (execute dangerous_kinds ex (StopPrint printerId None))) = performed ex"
    by (simp add: execute_def dangerous_kinds_def)
  show "\<exists>t w. snd (execute dangerous_kinds ex (StopPrint printerId None))
              = Inr (ConfirmationRequired t w)"
    by (simp add: execute_def dangerous_kinds_def)
qed

theorem tokenless_call_only_challenges_witness:
  "dangerous_kinds (set_token None (StopPrint 1 None)) \<and> confirm_token (StopPrint 1 None) = None
   \<and> performed (fst (execute dangerous_kinds Executor_initial (StopPrint 1 None))) = []
   \<and> snd (execute dangerous_kinds Executor_initial (StopPrint 1 None))
       = Inr (ConfirmationRequired ''T1'' ''This will abort the current print.'')
   \<and> pending (fst (execute dangerous_kinds Executor_initial (StopPrint 1 None))) (1, stop, NoTarget)
       = Some ''T1''
   \<and> snd (Movement_step (Some (snapshot True ''RUNNING'')) Movement_initial ClickHome)
       = [HomeMutate ''XYZ'' None]"
  using tokenless_call_only_challenges
    [where dangerous = dangerous_kinds and c = "StopPrint 1 None" and ex = Executor_initial
       and ev = ClickHome and s = Movement_initial and status = "Some (snapshot True ''RUNNING'')"]
  by (simp add: execute_def dangerous_kinds_def Executor_initial_def mint_def handler_defs
        Movement_disabled_def Movement_isLoading_def Movement_initial_def isConnected_def
        snapshot_def)








section \<open>One prompt for each component\<close>

lemma Movement_step_held:
  assumes "Movement_step status s ev = (s', calls)" and "T \<notin> Movement_held s"
    and "movement_event_token ev \<noteq> Some T"
  shows "T \<notin> Movement_held s' \<and> (\<forall>m \<in> set calls. movement_token m \<noteq> Some T)"
proof (cases ev)
  case (Settled n c r)
  then show ?thesis using assms
    by (cases c; cases r rule: result_token.cases)
       (auto simp: handler_defs Movement_held_def split: option.splits if_splits)
next
  case ClickContinue
  then show ?thesis using assms
    by (auto simp: handler_defs Movement_held_def split: option.splits)
qed (use assms in \<open>auto simp: handler_defs Movement_held_def split: option.splits if_splits\<close>)

lemma Movement_run_held:
  "T \<notin> Movement_held s \<Longrightarrow> \<forall>e \<in> set evs. movement_event_token (snd e) \<noteq> Some T \<Longrightarrow>
     \<forall>m \<in> set (snd (Movement_run s evs)). movement_token m \<noteq> Some T"
proof (induction evs arbitrary: s)
  case Nil
  then show ?case by simp
next
  case (Cons e evs)
  obtain status ev where e: "e = (status, ev)" by (cases e)
  obtain s1 calls where st: "Movement_step status s ev = (s1, calls)"
    by (cases "Movement_step status s ev")
  from Movement_step_held[OF st Cons.prems(1)] Cons.prems(2) e
  have h: "T \<notin> Movement_held s1" "\<forall>m \<in> set calls. movement_token m \<noteq> Some T" by auto
  from Cons.IH[OF h(1)] Cons.prems(2)
  have "\<forall>m \<in> set (snd (Movement_run s1 evs)). movement_token m \<noteq> Some T" by simp
  with h(2) e st show ?case by (auto split: prod.splits)
qed

lemma Temperature_step_held:
  assumes "Temperature_step n status s ev = (s', calls)" and "T \<notin> Temperature_held s"
    and "temperature_event_token ev \<noteq> Some T"
  shows "T \<notin> Temperature_held s' \<and> (\<forall>m \<in> set calls. temperature_token m \<noteq> Some T)"
proof (cases ev)
  case (SettledTemperature k c r)
  then show ?thesis using assms
    by (cases c; cases r rule: result_token.cases)
       (auto simp: temperature_defs Temperature_held_def split: option.splits if_splits)
next
  case ClickSetTemperature
  then show ?thesis using assms
    by (auto simp: temperature_defs Temperature_held_def Let_def split: option.splits if_splits)
qed (use assms in
      \<open>auto simp: temperature_defs Temperature_held_def Let_def split: option.splits if_splits\<close>)

lemma Temperature_run_held:
  "T \<notin> Temperature_held s \<Longrightarrow> \<forall>e \<in> set evs. temperature_event_token (snd e) \<noteq> Some T \<Longrightarrow>
     \<forall>m \<in> set (snd (Temperature_run n s evs)). temperature_token m \<noteq> Some T"
proof (induction evs arbitrary: s)
  case Nil
  then show ?case by simp
next
  case (Cons e evs)
  obtain status ev where e: "e = (status, ev)" by (cases e)
  obtain s1 calls where st: "Temperature_step n status s ev = (s1, calls)"
    by (cases "Temperature_step n status s ev")
  from Temperature_step_held[OF st Cons.prems(1)] Cons.prems(2) e
  have h: "T \<notin> Temperature_held s1" "\<forall>m \<in> set calls. temperature_token m \<noteq> Some T" by auto
  from Cons.IH[OF h(1)] Cons.prems(2)
  have "\<forall>m \<in> set (snd (Temperature_run n s1 evs)). temperature_token m \<noteq> Some T" by simp
  with h(2) e st show ?case by (auto split: prod.splits)
qed

lemma challenge_fills_the_prompt:
  "Movement_held (Movement_onSuccess m (ConfirmationRequired t w) s) = {t}"
  "Temperature_held (Temperature_onSuccess tm (ConfirmationRequired t w) ts) = {t}"
  by (cases m; simp add: handler_defs Movement_held_def)
     (cases tm; simp add: temperature_defs Temperature_held_def)

lemma normal_result_keeps_the_prompt:
  "Movement_onSuccess m Completed s = s"
  "Temperature_onSuccess tm Completed ts = ts"
  by (cases m; simp add: handler_defs) (cases tm; simp add: temperature_defs)

text \<open>The executor modelled from the specification keeps the challenges of other
  commands: a call touches only the pending entry of its own kind and target.\<close>

lemma execute_keeps_other_challenges:
  "k \<noteq> challenge_key c \<Longrightarrow> pending (fst (execute dangerous ex c)) k = pending ex k"
  by (simp add: execute_def split: option.splits)

text \<open>
  C4 (amended). Each component keeps a single pending confirmation. While the challenge
  of one dangerous command is pending, submitting a second command of the component
  leaves the prompt as it is, and so does a normal result or an error of that command;
  but a challenge returned for the second command replaces the prompt, after which the
  component holds only the new token and Continue resubmits the second command with it.
  Accepting the prompt resubmits only the command it holds, so it never confirms the
  other command.
\<close>

theorem component_keeps_one_confirmation:
  "(ev \<in> {ClickHome, ClickDisableMotors, ClickMove axis positive, Settled n m None,
           Settled n m (Some Completed)}
      \<longrightarrow> confirmModal (fst (Movement_step status s ev)) = confirmModal s)
   \<and> Movement_held (fst (Movement_step status s (Settled n m (Some (ConfirmationRequired t w)))))
       = {t}
   \<and> snd (Movement_step status s ClickContinue)
       = (case confirmModal s of None \<Rightarrow> [] | Some c \<Rightarrow> [onConfirm c])
   \<and> snd (Movement_step status2
            (fst (Movement_step status s (Settled n m (Some (ConfirmationRequired t w)))))
            ClickContinue)
       = [case m of HomeMutate axes tok \<Rightarrow> HomeMutate ''XYZ'' (Some t) | _ \<Rightarrow> with_token t m]
   \<and> snd (Temperature_step nozzleCount status2
            (fst (Temperature_step nozzleCount status ts
               (SettledTemperature n tm (Some (ConfirmationRequired t w)))))
            ClickSetTemperature)
       = [case tm of BedMutate target tok \<Rightarrow> BedMutate target (Some t)
          | NozzleMutate target nz tok \<Rightarrow> NozzleMutate target nz (Some t)]
   \<and> (tev \<in> {ClickPreset preset, ClickAdjust ty delta nz, SettledTemperature n tm None,
            SettledTemperature n tm (Some Completed)}
      \<longrightarrow> tp_confirmModal (fst (Temperature_step nozzleCount status ts tev)) = tp_confirmModal ts)
   \<and> Temperature_held (fst (Temperature_step nozzleCount status ts
         (SettledTemperature n tm (Some (ConfirmationRequired t w))))) = {t}
   \<and> (\<forall>c \<in> set (snd (Temperature_step nozzleCount status ts ClickSetTemperature)).
         temperature_token c = map_option tc_token (tp_confirmModal ts))"
proof (intro conjI)
  show "ev \<in> {ClickHome, ClickDisableMotors, ClickMove axis positive, Settled n m None,
           Settled n m (Some Completed)}
      \<longrightarrow> confirmModal (fst (Movement_step status s ev)) = confirmModal s"
    by (auto simp: handler_defs normal_result_keeps_the_prompt)
  show "Movement_held (fst (Movement_step status s (Settled n m (Some (ConfirmationRequired t w)))))
       = {t}"
    by (simp add: challenge_fills_the_prompt)
  show "snd (Movement_step status s ClickContinue)
       = (case confirmModal s of None \<Rightarrow> [] | Some c \<Rightarrow> [onConfirm c])"
    by (simp add: handler_defs split: option.splits)
  show "snd (Movement_step status2
            (fst (Movement_step status s (Settled n m (Some (ConfirmationRequired t w)))))
            ClickContinue)
       = [case m of HomeMutate axes tok \<Rightarrow> HomeMutate ''XYZ'' (Some t) | _ \<Rightarrow> with_token t m]"
    by (cases m) (simp_all add: handler_defs)
  show "snd (Temperature_step nozzleCount status2
            (fst (Temperature_step nozzleCount status ts
               (SettledTemperature n tm (Some (ConfirmationRequired t w)))))
            ClickSetTemperature)
       = [case tm of BedMutate target tok \<Rightarrow> BedMutate target (Some t)
          | NozzleMutate target nz tok \<Rightarrow> NozzleMutate target nz (Some t)]"
    by (cases tm) (simp_all add: temperature_defs Let_def)
  show "tev \<in> {ClickPreset preset, ClickAdjust ty delta nz, SettledTemperature n tm None,
            SettledTemperature n tm (Some Completed)}
      \<longrightarrow> tp_confirmModal (fst (Temperature_step nozzleCount status ts tev)) = tp_confirmModal ts"
    by (auto simp: handlePreset_def Let_def normal_result_keeps_the_prompt)
  show "Temperature_held (fst (Temperature_step nozzleCount status ts
         (SettledTemperature n tm (Some (ConfirmationRequired t w))))) = {t}"
    by (simp add: challenge_fills_the_prompt)
  show "\<forall>c \<in> set (snd (Temperature_step nozzleCount status ts ClickSetTemperature)).
         temperature_token c = map_option tc_token (tp_confirmModal ts)"
    by (auto simp: Temperature_handleConfirm_def Let_def split: option.splits if_splits)
qed

theorem component_keeps_one_confirmation_witness:
  "ClickDisableMotors \<in> {ClickHome, ClickDisableMotors, ClickMove ''X'' True,
       Settled 1 (HomeMutate ''XYZ'' None) None, Settled 1 (HomeMutate ''XYZ'' None) (Some Completed)}
   \<and> confirmModal (fst (Movement_step (Some (snapshot True ''RUNNING''))
        (home_onSuccess (ConfirmationRequired ''T1'' ''home?'') Movement_initial)
        ClickDisableMotors))
      = Some \<lparr> action = ''home'', token = ''T1'', warning = ''home?'',
               onConfirm = HomeMutate ''XYZ'' (Some ''T1'') \<rparr>
   \<and> Movement_held (fst (Movement_step (Some (snapshot True ''RUNNING''))
        (home_onSuccess (ConfirmationRequired ''T1'' ''home?'') Movement_initial)
        (Settled 1 (DisableMotorsMutate None) (Some (ConfirmationRequired ''T2'' ''disable?'')))))
      = {''T2''}"
  using component_keeps_one_confirmation
    [where ev = ClickDisableMotors and axis = "''X''" and positive = True and n = 1
       and m = "HomeMutate ''XYZ'' None" and status = "Some (snapshot True ''RUNNING'')"
       and s = "home_onSuccess (ConfirmationRequired ''T1'' ''home?'') Movement_initial"]
    component_keeps_one_confirmation
    [where m = "DisableMotorsMutate None" and t = "''T2''" and w = "''disable?''" and n = 1
       and status = "Some (snapshot True ''RUNNING'')"
       and s = "home_onSuccess (ConfirmationRequired ''T1'' ''home?'') Movement_initial"]
  by (simp add: handler_defs Movement_initial_def)

text \<open>
  C4 as stated fails. In the movement panel of a connected, printing printer a
  click on Home is answered by a challenge with token T1; a click on Disable Motors is
  then answered by a challenge with token T2. The prompt now holds the disable command,
  the component no longer holds T1, and Continue sends only the disable call with T2. In
  the temperature panel a bed and a nozzle adjustment are sent one after the other,
  before either is answered; both are answered by challenges, and the prompt keeps only
  the nozzle's.
\<close>

theorem second_challenge_replaces_first:
  "confirmModal (fst (Movement_run Movement_initial
     [(Some (snapshot True ''RUNNING''), ClickHome),
      (Some (snapshot True ''RUNNING''),
         Settled 1 (HomeMutate ''XYZ'' None) (Some (ConfirmationRequired ''T1'' ''home?''))),
      (Some (snapshot True ''RUNNING''), ClickDisableMotors),
      (Some (snapshot True ''RUNNING''),
         Settled 1 (DisableMotorsMutate None) (Some (ConfirmationRequired ''T2'' ''disable?'')))]))
     = Some \<lparr> action = ''disable'', token = ''T2'', warning = ''disable?'',
              onConfirm = DisableMotorsMutate (Some ''T2'') \<rparr>
   \<and> ''T1'' \<notin> Movement_held (fst (Movement_run Movement_initial
     [(Some (snapshot True ''RUNNING''), ClickHome),
      (Some (snapshot True ''RUNNING''),
         Settled 1 (HomeMutate ''XYZ'' None) (Some (ConfirmationRequired ''T1'' ''home?''))),
      (Some (snapshot True ''RUNNING''), ClickDisableMotors),
      (Some (snapshot True ''RUNNING''),
         Settled 1 (DisableMotorsMutate None) (Some (ConfirmationRequired ''T2'' ''disable?'')))]))
   \<and> snd (Movement_run Movement_initial
     [(Some (snapshot True ''RUNNING''), ClickHome),
      (Some (snapshot True ''RUNNING''),
         Settled 1 (HomeMutate ''XYZ'' None) (Some (ConfirmationRequired ''T1'' ''home?''))),
      (Some (snapshot True ''RUNNING''), ClickDisableMotors),
      (Some (snapshot True ''RUNNING''),
         Settled 1 (DisableMotorsMutate None) (Some (ConfirmationRequired ''T2'' ''disable?''))),
      (Some (snapshot True ''RUNNING''), ClickContinue),
      (Some (snapshot True ''RUNNING''), ClickContinue)])
     = [HomeMutate ''XYZ'' None, DisableMotorsMutate None, DisableMotorsMutate (Some ''T2'')]
   \<and> Temperature_run 1 Temperature_initial
     [(Some (snapshot True ''RUNNING''), ClickAdjust Bed 5 0),
      (Some (snapshot True ''RUNNING''), ClickAdjust Nozzle 5 0),
      (Some (snapshot True ''RUNNING''),
         SettledTemperature 1 (BedMutate 105 None) (Some (ConfirmationRequired ''T1'' ''bed?''))),
      (Some (snapshot True ''RUNNING''),
         SettledTemperature 1 (NozzleMutate 265 0 None)
           (Some (ConfirmationRequired ''T2'' ''nozzle?''))),
      (Some (snapshot True ''RUNNING''), ClickSetTemperature),
      (Some (snapshot True ''RUNNING''), ClickSetTemperature)]
     = (Temperature_initial\<lparr> nozzle_isPending := True, bed_calls := 1, nozzle_calls := 2 \<rparr>,
        [BedMutate 105 None, NozzleMutate 265 0 None, NozzleMutate 265 0 (Some ''T2'')])"
  by (simp add: handler_defs temperature_defs disabled_defs snapshot_def isConnected_def
        Movement_initial_def Temperature_initial_def Movement_isLoading_def Movement_held_def
        temps_of_def or_zero_def Let_def)

section \<open>Cancelling a confirmation\<close>

text \<open>The executor modelled from the specification never issues a token twice: the
  token of a challenge is minted from the count of challenges issued, which grows.\<close>

lemma mint_inj: "mint a = mint b \<longleftrightarrow> a = b"
proof
  assume "mint a = mint b"
  then have "length (mint a) = length (mint b)" by simp
  then show "a = b" by (simp add: mint_def)
qed simp

lemma executor_tokens_fresh:
  "snd (execute dangerous ex c) = Inr (ConfirmationRequired t w) \<Longrightarrow>
     t = mint (issued ex) \<and> issued (fst (execute dangerous ex c)) = Suc (issued ex)"
  by (auto simp: execute_def split: option.splits if_splits)


text \<open>
  C5. Cancelling a pending confirmation sends nothing and drops the prompt, so the
  component holds no token any more. Whatever the user does and whatever results arrive
  afterwards, as long as no later challenge carries the same token again, no call the
  component issues carries the cancelled token. This holds for the prompt of the
  movement panel and for the prompt of the temperature panel.
\<close>

theorem cancelled_token_never_resubmitted:
  "Movement_step status s ClickCancel = (Movement_onCancel s, [])
   \<and> Movement_held (Movement_onCancel s) = {}
   \<and> ((\<forall>e \<in> set evs. movement_event_token (snd e) \<noteq> Some T) \<longrightarrow>
        (\<forall>m \<in> set (snd (Movement_run (Movement_onCancel s) evs)). movement_token m \<noteq> Some T))
   \<and> Temperature_step nozzleCount status ts ClickCancelTemperature = (Temperature_onCancel ts, [])
   \<and> Temperature_held (Temperature_onCancel ts) = {}
   \<and> ((\<forall>e \<in> set tevs. temperature_event_token (snd e) \<noteq> Some T) \<longrightarrow>
        (\<forall>m \<in> set (snd (Temperature_run nozzleCount (Temperature_onCancel ts) tevs)).
           temperature_token m \<noteq> Some T))"
proof (intro conjI)
  have a: "T \<notin> Movement_held (Movement_onCancel s)"
    by (simp add: Movement_held_def Movement_onCancel_def)
  show "(\<forall>e \<in> set evs. movement_event_token (snd e) \<noteq> Some T) \<longrightarrow>
        (\<forall>m \<in> set (snd (Movement_run (Movement_onCancel s) evs)). movement_token m \<noteq> Some T)"
    using Movement_run_held[OF a] by blast
  have b: "T \<notin> Temperature_held (Temperature_onCancel ts)"
    by (simp add: Temperature_held_def Temperature_onCancel_def)
  show "(\<forall>e \<in> set tevs. temperature_event_token (snd e) \<noteq> Some T) \<longrightarrow>
        (\<forall>m \<in> set (snd (Temperature_run nozzleCount (Temperature_onCancel ts) tevs)).
           temperature_token m \<noteq> Some T)"
    using Temperature_run_held[OF b] by blast
qed (simp_all add: Movement_held_def Movement_onCancel_def Temperature_held_def
       Temperature_onCancel_def)

theorem cancelled_token_never_resubmitted_witness:
  "Movement_held (home_onSuccess (ConfirmationRequired ''T1'' ''home?'') Movement_initial) = {''T1''}
   \<and> Movement_step (Some (snapshot True ''RUNNING''))
        (home_onSuccess (ConfirmationRequired ''T1'' ''home?'') Movement_initial) ClickCancel
      = (Movement_initial, [])
   \<and> snd (Movement_run
        (Movement_onCancel (home_onSuccess (ConfirmationRequired ''T1'' ''home?'') Movement_initial))
        [(Some (snapshot True ''RUNNING''), ClickContinue),
         (Some (snapshot True ''RUNNING''), ClickHome),
         (Some (snapshot True ''RUNNING''),
            Settled 1 (HomeMutate ''XYZ'' None) (Some (ConfirmationRequired ''T2'' ''home?''))),
         (Some (snapshot True ''RUNNING''), ClickContinue)])
      = [HomeMutate ''XYZ'' None, HomeMutate ''XYZ'' (Some ''T2'')]
   \<and> list_all (\<lambda>m. movement_token m \<noteq> Some ''T1'') (snd (Movement_run
        (Movement_onCancel (home_onSuccess (ConfirmationRequired ''T1'' ''home?'') Movement_initial))
        [(Some (snapshot True ''RUNNING''), ClickContinue),
         (Some (snapshot True ''RUNNING''), ClickHome),
         (Some (snapshot True ''RUNNING''),
            Settled 1 (HomeMutate ''XYZ'' None) (Some (ConfirmationRequired ''T2'' ''home?''))),
         (Some (snapshot True ''RUNNING''), ClickContinue)]))"
  using cancelled_token_never_resubmitted
    [where s = "home_onSuccess (ConfirmationRequired ''T1'' ''home?'') Movement_initial"
       and T = "''T1''" and status = "Some (snapshot True ''RUNNING'')"
       and evs = "[(Some (snapshot True ''RUNNING''), ClickContinue),
         (Some (snapshot True ''RUNNING''), ClickHome),
         (Some (snapshot True ''RUNNING''),
            Settled 1 (HomeMutate ''XYZ'' None) (Some (ConfirmationRequired ''T2'' ''home?''))),
         (Some (snapshot True ''RUNNING''), ClickContinue)]"]
  by (simp add: handler_defs disabled_defs snapshot_def isConnected_def Movement_initial_def
        Movement_isLoading_def Movement_held_def)


section \<open>Accepting a prompt after the connection is lost\<close>

text \<open>
  C6. Every control of the categories is disabled while the printer is disconnected
  (\<open>disconnected_disables_every_control\<close>), but a mutation can still be started then.
  The printer is connected and printing; a click on Home is answered by a challenge and
  the prompt opens; the next snapshot reports connected = false, or no snapshot arrives.
  The Home button is now disabled, the prompt is still open, and Continue calls
  \<^verbatim>\<open>homeMutation.mutate\<close> with the token: a home call is issued while disconnected.
  The prompt of the temperature panel behaves the same way.
\<close>

theorem confirm_sends_while_disconnected:
  "\<not> isConnected (Some (snapshot False ''RUNNING''))
   \<and> control_disabled (Some (snapshot False ''RUNNING'')) Page_initial HomeButton
   \<and> Movement_run Movement_initial
        [(Some (snapshot True ''RUNNING''), ClickHome),
         (Some (snapshot True ''RUNNING''),
            Settled 1 (HomeMutate ''XYZ'' None) (Some (ConfirmationRequired ''T1'' ''home?''))),
         (Some (snapshot False ''RUNNING''), ClickHome),
         (Some (snapshot False ''RUNNING''), ClickContinue)]
      = (Movement_initial\<lparr> home_isPending := True, home_calls := 2 \<rparr>,
         [HomeMutate ''XYZ'' None, HomeMutate ''XYZ'' (Some ''T1'')])
   \<and> snd (Movement_step None
        (home_onSuccess (ConfirmationRequired ''T1'' ''home?'') Movement_initial) ClickContinue)
      = [HomeMutate ''XYZ'' (Some ''T1'')]
   \<and> snd (Temperature_step 1 (Some (snapshot False ''RUNNING''))
        (bed_onSuccess (ConfirmationRequired ''T1'' ''bed?'') 105 Temperature_initial)
        ClickSetTemperature)
      = [BedMutate 105 (Some ''T1'')]"
  by (simp add: handler_defs temperature_defs disabled_defs snapshot_def isConnected_def
        Movement_initial_def Temperature_initial_def Movement_isLoading_def Page_initial_def)

end
